theory Spec2Isabelle
  imports Main
begin

section \<open>Python strings\<close>

text \<open>
  A Python \<open>str\<close> is modelled as a \<open>string\<close>, one \<open>char\<close> per character (code
  points below 256). The tables \<open>str.isspace\<close> and \<open>str.isalnum\<close> of the Unicode
  database, which also decide \<open>\s\<close>, \<open>\w\<close> and \<open>\b\<close> of \<open>re\<close>, are not fixed here:
  the functions that consult them take them as the arguments \<open>isspace\<close> and \<open>isalnum\<close>,
  and the world the tools run in supplies them. Bytes read from a file are a \<open>string\<close>
  as well.
\<close>

abbreviation nl :: char where "nl \<equiv> CHR 0x0A"
abbreviation q :: string where "q \<equiv> [CHR 0x27]"

definition islower_or_digit :: "char \<Rightarrow> bool" where
  "islower_or_digit c = (c \<in> set ''abcdefghijklmnopqrstuvwxyz0123456789'')"

text \<open>Lower case of a character; among the code points below 256 only the ASCII capitals
  have an ASCII letter as their lower case, which is all that a comparison with ASCII
  text depends on.\<close>

definition lower_char :: "char \<Rightarrow> char" where
  "lower_char c = (case map_of (zip ''ABCDEFGHIJKLMNOPQRSTUVWXYZ'' ''abcdefghijklmnopqrstuvwxyz'') c of
                     Some d \<Rightarrow> d | None \<Rightarrow> c)"

definition lower :: "string \<Rightarrow> string" where
  "lower s = map lower_char s"

definition startswith :: "string \<Rightarrow> string \<Rightarrow> bool" where
  "startswith s p = (take (length p) s = p)"

definition endswith :: "string \<Rightarrow> string \<Rightarrow> bool" where
  "endswith s p = (length p \<le> length s \<and> drop (length s - length p) s = p)"

text \<open>The text before and after the first occurrence of \<open>sep\<close> (\<open>str.find\<close>).\<close>

fun find_first :: "string \<Rightarrow> string \<Rightarrow> (string \<times> string) option" where
  "find_first sep [] = (if sep = [] then Some ([], []) else None)"
| "find_first sep (c # cs) =
     (if startswith (c # cs) sep then Some ([], drop (length sep) (c # cs))
      else map_option (\<lambda>(a, b). (c # a, b)) (find_first sep cs))"

text \<open>\<open>sub in s\<close>\<close>

definition is_substring :: "string \<Rightarrow> string \<Rightarrow> bool" where
  "is_substring sub s = (find_first sub s \<noteq> None)"

text \<open>\<open>s.split(sep, maxsplit)\<close> for a non-empty separator.\<close>

fun split_max :: "string \<Rightarrow> nat \<Rightarrow> string \<Rightarrow> string list" where
  "split_max sep 0 s = [s]"
| "split_max sep (Suc n) s =
     (case find_first sep s of None \<Rightarrow> [s] | Some (a, b) \<Rightarrow> a # split_max sep n b)"

text \<open>\<open>s.split(c)\<close> for a one-character separator, without a limit.\<close>

fun split_char :: "char \<Rightarrow> string \<Rightarrow> string list" where
  "split_char c [] = [[]]"
| "split_char c (x # xs) =
     (if x = c then [] # split_char c xs
      else (case split_char c xs of l # ls \<Rightarrow> (x # l) # ls | [] \<Rightarrow> [[x]]))"

text \<open>\<open>len(s.split())\<close>: the number of maximal runs of non-whitespace characters.\<close>

fun count_words :: "(char \<Rightarrow> bool) \<Rightarrow> bool \<Rightarrow> string \<Rightarrow> nat" where
  "count_words isspace in_word [] = 0"
| "count_words isspace in_word (c # cs) =
     (if isspace c then count_words isspace False cs
      else (if in_word then 0 else 1) + count_words isspace True cs)"

definition word_count :: "(char \<Rightarrow> bool) \<Rightarrow> string \<Rightarrow> nat" where
  "word_count isspace s = count_words isspace False s"

text \<open>\<open>s.strip()\<close>\<close>

definition strip :: "(char \<Rightarrow> bool) \<Rightarrow> string \<Rightarrow> string" where
  "strip isspace s = rev (dropWhile isspace (rev (dropWhile isspace s)))"

fun join_with :: "string \<Rightarrow> string list \<Rightarrow> string" where
  "join_with sep [] = []"
| "join_with sep [x] = x"
| "join_with sep (x # y # ys) = x @ sep @ join_with sep (y # ys)"

text \<open>\<open>str(n)\<close> for a non-negative integer.\<close>

fun str_nat :: "nat \<Rightarrow> string" where
  "str_nat n = (if n < 10 then [''0123456789'' ! n]
                else str_nat (n div 10) @ [''0123456789'' ! (n mod 10)])"

text \<open>
  \<open>fnmatch.fnmatch(name, pattern)\<close> on POSIX, for patterns made of literal characters,
  \<open>*\<close> and \<open>?\<close> (no pattern of the tools has a bracket expression); \<open>*\<close> also matches
  across \<open>/\<close>.
\<close>

fun glob_match :: "string \<Rightarrow> string \<Rightarrow> bool" where
  "glob_match [] s = (s = [])"
| "glob_match (p # ps) [] = (p = CHR ''*'' \<and> glob_match ps [])"
| "glob_match (p # ps) (c # cs) =
     (if p = CHR ''*'' then glob_match ps (c # cs) \<or> glob_match (p # ps) cs
      else (p = CHR ''?'' \<or> p = c) \<and> glob_match ps cs)"

definition fnmatch :: "string \<Rightarrow> string \<Rightarrow> bool" where
  "fnmatch name pattern = glob_match pattern name"

section \<open>The regular expressions of the validator\<close>

text \<open>
  Each pattern of \<open>validate_skill.py\<close> that is applied with \<open>re.match\<close> or \<open>re.search\<close>
  is given as the predicate it decides.
\<close>

text \<open>\<open>\w\<close>\<close>

definition is_word_char :: "(char \<Rightarrow> bool) \<Rightarrow> char \<Rightarrow> bool" where
  "is_word_char isalnum c = (isalnum c \<or> c = CHR ''_'')"

text \<open>\<open>\b\<close> at position \<open>i\<close>: exactly one of the two neighbours is a word character.\<close>

definition word_boundary :: "(char \<Rightarrow> bool) \<Rightarrow> string \<Rightarrow> nat \<Rightarrow> bool" where
  "word_boundary isalnum s i =
     ((0 < i \<and> i \<le> length s \<and> is_word_char isalnum (s ! (i - 1)))
      \<noteq> (i < length s \<and> is_word_char isalnum (s ! i)))"

text \<open>\<open>\bw\b\<close> with \<open>re.IGNORECASE\<close> matches at position \<open>i\<close> (\<open>w\<close> in lower case).\<close>

definition word_at :: "(char \<Rightarrow> bool) \<Rightarrow> string \<Rightarrow> string \<Rightarrow> nat \<Rightarrow> bool" where
  "word_at isalnum w s i =
     (i + length w \<le> length s \<and> word_boundary isalnum s i \<and>
      lower (take (length w) (drop i s)) = w \<and> word_boundary isalnum s (i + length w))"

text \<open>\<open>re.search(r'\bw\b', s, re.IGNORECASE)\<close>\<close>

definition search_word :: "(char \<Rightarrow> bool) \<Rightarrow> string \<Rightarrow> string \<Rightarrow> bool" where
  "search_word isalnum w s = list_ex (word_at isalnum w s) [0..<Suc (length s)]"

text \<open>\<open>re.search(literal, s, re.IGNORECASE)\<close> (\<open>literal\<close> in lower case).\<close>

definition search_literal_ci :: "string \<Rightarrow> string \<Rightarrow> bool" where
  "search_literal_ci literal s = is_substring literal (lower s)"

text \<open>\<open>re.search(r'\[(?!SKILL_NAME|skill-name).*?\]', s, re.IGNORECASE)\<close> on one line:
  an opening bracket that is not followed by either name and has a closing bracket
  somewhere after it.\<close>

fun search_bracket :: "string \<Rightarrow> bool" where
  "search_bracket [] = False"
| "search_bracket (c # cs) =
     ((c = CHR ''['' \<and> \<not> startswith (lower cs) ''skill_name'' \<and> \<not> startswith (lower cs) ''skill-name''
         \<and> CHR '']'' \<in> set cs)
      \<or> search_bracket cs)"

text \<open>\<open>re.match(r'^[a-z0-9]+(?:-[a-z0-9]+)*$', s)\<close>; \<open>$\<close> also matches before a final
  newline.\<close>

definition slug :: "string \<Rightarrow> bool" where
  "slug s = list_all (\<lambda>g. g \<noteq> [] \<and> list_all islower_or_digit g) (split_char (CHR ''-'') s)"

definition match_slug :: "string \<Rightarrow> bool" where
  "match_slug s = (slug s \<or> (s \<noteq> [] \<and> last s = nl \<and> slug (butlast s)))"

text \<open>The positions where \<open>^\<close> matches under \<open>re.MULTILINE\<close>, as the text from there on.\<close>

fun after_newlines :: "string \<Rightarrow> string list" where
  "after_newlines [] = []"
| "after_newlines (c # cs) = (if c = nl then [cs] else []) @ after_newlines cs"

definition line_starts :: "string \<Rightarrow> string list" where
  "line_starts s = s # after_newlines s"

text \<open>\<open>\s+\<close> followed by what \<open>rest\<close> decides: one whitespace character or more, as many
  as the rest of the pattern allows.\<close>

fun spaces_then :: "(char \<Rightarrow> bool) \<Rightarrow> (string \<Rightarrow> bool) \<Rightarrow> string \<Rightarrow> bool" where
  "spaces_then isspace rest [] = False"
| "spaces_then isspace rest (c # cs) = (isspace c \<and> (rest cs \<or> spaces_then isspace rest cs))"

text \<open>\<open>^#\s+.+$\<close> at a line start, under \<open>re.MULTILINE\<close>: after the whitespace a character
  other than a newline.\<close>

definition h1_here :: "(char \<Rightarrow> bool) \<Rightarrow> string \<Rightarrow> bool" where
  "h1_here isspace t =
     (case t of
        [] \<Rightarrow> False
      | c # cs \<Rightarrow> c = CHR ''#'' \<and> spaces_then isspace (\<lambda>r. case r of [] \<Rightarrow> False | d # _ \<Rightarrow> d \<noteq> nl) cs)"

text \<open>\<open>^##\s+(?:A|B)\<close> at a line start.\<close>

definition h2_here :: "(char \<Rightarrow> bool) \<Rightarrow> string list \<Rightarrow> string \<Rightarrow> bool" where
  "h2_here isspace alts t =
     (startswith t ''##'' \<and> spaces_then isspace (\<lambda>r. list_ex (startswith r) alts) (drop 2 t))"

definition search_multiline :: "(string \<Rightarrow> bool) \<Rightarrow> string \<Rightarrow> bool" where
  "search_multiline here s = list_ex here (line_starts s)"

section \<open>Issues\<close>

datatype Severity = ERROR | WARNING | INFO

record ValidationIssue =
  severity :: Severity
  message :: string
  location :: string
  line_number :: "int option"
  fix_suggestion :: string

section \<open>Exceptions, paths, and the world the tools run in\<close>

text \<open>
  The exceptions that the code tells apart by class, and every other subclass of
  \<open>Exception\<close>; each carries \<open>str(e)\<close>, a syntax error also \<open>e.lineno\<close>.
\<close>

datatype exn = YAMLError string | SyntaxError "int option" string | OtherError string

fun str_exn :: "exn \<Rightarrow> string" where
  "str_exn (YAMLError m) = m"
| "str_exn (SyntaxError l m) = m"
| "str_exn (OtherError m) = m"

text \<open>A \<open>pathlib\<close> path on POSIX: the root (empty for a relative path) and the components.\<close>

datatype path = Path (anchor: string) (comps: "string list")

text \<open>\<open>Path(s)\<close>\<close>

definition Path_of :: "string \<Rightarrow> path" where
  "Path_of s =
     Path (if startswith s ''//'' \<and> \<not> startswith s ''///'' then ''//''
           else if startswith s ''/'' then ''/'' else [])
          (filter (\<lambda>c. c \<noteq> [] \<and> c \<noteq> ''.'') (split_char (CHR ''/'') s))"

text \<open>\<open>str(p)\<close>\<close>

definition path_str :: "path \<Rightarrow> string" where
  "path_str p = (if anchor p = [] \<and> comps p = [] then ''.''
                 else anchor p @ join_with ''/'' (comps p))"

text \<open>\<open>p.name\<close>\<close>

definition path_name :: "path \<Rightarrow> string" where
  "path_name p = (if comps p = [] then [] else last (comps p))"

text \<open>\<open>p.parts\<close>\<close>

definition path_parts :: "path \<Rightarrow> string list" where
  "path_parts p = (if anchor p = [] then comps p else anchor p # comps p)"

text \<open>\<open>p / name\<close> for a single file name.\<close>

definition child :: "path \<Rightarrow> string \<Rightarrow> path" where
  "child p name = Path (anchor p) (comps p @ [name])"

text \<open>\<open>p.is_absolute()\<close>\<close>

definition is_absolute :: "path \<Rightarrow> bool" where
  "is_absolute p = (anchor p \<noteq> [])"

text \<open>\<open>p.relative_to(base)\<close>, which raises \<open>ValueError\<close> when \<open>p\<close> is not below \<open>base\<close>.\<close>

definition relative_to :: "path \<Rightarrow> path \<Rightarrow> exn + path" where
  "relative_to p base =
     (if anchor p = anchor base \<and> take (length (comps base)) (comps p) = comps base
      then Inr (Path [] (drop (length (comps base)) (comps p)))
      else Inl (OtherError (q @ path_str p @ q @ '' is not in the subpath of '' @ q @ path_str base @ q)))"

text \<open>What \<open>yaml.safe_load\<close> returns; \<open>YOther\<close> is a scalar of another class (a float, a
  date), with the name of the class.\<close>

datatype yaml =
    YNull
  | YBool bool
  | YInt int
  | YStr string
  | YSeq "yaml list"
  | YMap "(yaml \<times> yaml) list"
  | YOther string

text \<open>\<open>type(v).__name__\<close>\<close>

fun type_name :: "yaml \<Rightarrow> string" where
  "type_name YNull = ''NoneType''"
| "type_name (YBool b) = ''bool''"
| "type_name (YInt i) = ''int''"
| "type_name (YStr s) = ''str''"
| "type_name (YSeq xs) = ''list''"
| "type_name (YMap kvs) = ''dict''"
| "type_name (YOther c) = c"

text \<open>\<open>key in v\<close> and \<open>v[key]\<close> for a string key, with the \<open>TypeError\<close> or \<open>KeyError\<close>
  they raise.\<close>

fun py_contains :: "yaml \<Rightarrow> string \<Rightarrow> exn + bool" where
  "py_contains (YMap kvs) k = Inr (YStr k \<in> set (map fst kvs))"
| "py_contains (YSeq xs) k = Inr (YStr k \<in> set xs)"
| "py_contains (YStr s) k = Inr (is_substring k s)"
| "py_contains v k = Inl (OtherError (''argument of type '' @ q @ type_name v @ q @ '' is not iterable''))"

fun py_getitem :: "yaml \<Rightarrow> string \<Rightarrow> exn + yaml" where
  "py_getitem (YMap kvs) k =
     (case map_of kvs (YStr k) of Some v \<Rightarrow> Inr v | None \<Rightarrow> Inl (OtherError (q @ k @ q)))"
| "py_getitem (YStr s) k = Inl (OtherError (''string indices must be integers, not '' @ q @ ''str'' @ q))"
| "py_getitem (YSeq xs) k = Inl (OtherError ''list indices must be integers or slices, not str'')"
| "py_getitem v k = Inl (OtherError (q @ type_name v @ q @ '' object is not subscriptable''))"

text \<open>
  The syntax tree of \<open>ast.parse\<close>: the class name of a node and its child nodes; of an
  \<open>Expr\<close> statement the only child is its value, of the module the children are its body.
\<close>

datatype ast = Node string "ast list"

fun ast_walk :: "ast \<Rightarrow> ast list" where
  "ast_walk (Node c ts) = Node c ts # concat (map ast_walk ts)"

fun ast_class :: "ast \<Rightarrow> string" where
  "ast_class (Node c ts) = c"

fun ast_children :: "ast \<Rightarrow> ast list" where
  "ast_children (Node c ts) = ts"

text \<open>The patterns handed to \<open>re.finditer\<close> (all with \<open>re.IGNORECASE\<close>).\<close>

datatype pattern =
    Placeholder     \<comment> \<open>\<open>\[(?:YOUR|FILL|INSERT|DESCRIBE|REPLACE|TODO|FIXME)[_\s][^\]]*\]\<close>\<close>
  | ApiKey          \<comment> \<open>\<open>api[_-]?key[\s]*[:=][\s]*["\']?[a-zA-Z0-9]{20,}\<close>\<close>
  | Password        \<comment> \<open>\<open>password[\s]*[:=][\s]*["\'][^"\']+["\']\<close>\<close>
  | Secret          \<comment> \<open>\<open>secret[\s]*[:=][\s]*["\'][^"\']+["\']\<close>\<close>
  | StripeKey       \<comment> \<open>\<open>(sk|pk)_live_[a-zA-Z0-9]{32,}\<close>\<close>
  | GithubToken     \<comment> \<open>\<open>ghp_[a-zA-Z0-9]{36}\<close>\<close>
  | SlackToken      \<comment> \<open>\<open>xox[baprs]-[0-9]{12}-[0-9]{12}-[a-zA-Z0-9]{24}\<close>\<close>
  | AwsKey          \<comment> \<open>\<open>AKIA[0-9A-Z]{16}\<close>\<close>
  | AccessToken     \<comment> \<open>\<open>["\']?access_token["\']?\s*[:=]\s*["\'][^"\']+["\']\<close>\<close>

text \<open>The manifest that the packager writes as \<open>manifest.json\<close>; a dictionary is a map.\<close>

record file_info =
  checksum :: "string option"
  size :: nat

record manifest =
  manifest_name :: string
  manifest_version :: string
  created :: string
  manifest_packager_version :: string
  description :: "yaml option"
  manifest_skill_name :: "yaml option"
  files_SKILL_md :: file_info
  files_scripts :: "(string \<rightharpoonup> file_info) option"
  files_references :: "(string \<rightharpoonup> file_info) option"
  files_assets :: "(string \<rightharpoonup> file_info) option"

text \<open>
  The file system as the tools read it, the libraries they call, and the module flag
  \<open>HAS_VALIDATOR\<close>. A call that can raise returns \<open>Inl\<close> of the exception.
  \<open>fs_glob_all\<close> is what \<open>dir.glob('*')\<close> yields (the entries of the directory),
  \<open>fs_rglob_all\<close> what \<open>dir.rglob('*')\<close> yields (every path below it).
  \<open>re_finditer\<close> gives the start and the text of every match, in order.
  \<open>sha256_hexdigest\<close> is the digest of the bytes fed to a \<open>hashlib.sha256\<close> object.
  \<open>str_isspace\<close> and \<open>str_isalnum\<close> are the character tables of the interpreter.
\<close>

record world =
  fs_exists :: "path \<Rightarrow> exn + bool"
  fs_is_dir :: "path \<Rightarrow> exn + bool"
  fs_is_file :: "path \<Rightarrow> exn + bool"
  fs_read_text :: "path \<Rightarrow> exn + string"
  fs_read_bytes :: "path \<Rightarrow> exn + string"
  fs_stat_size :: "path \<Rightarrow> exn + nat"
  fs_iterdir :: "path \<Rightarrow> exn + path list"
  fs_glob_all :: "path \<Rightarrow> exn + path list"
  fs_rglob_all :: "path \<Rightarrow> exn + path list"
  yaml_safe_load :: "string \<Rightarrow> exn + yaml"
  ast_parse :: "string \<Rightarrow> exn + ast"
  re_finditer :: "pattern \<Rightarrow> string \<Rightarrow> (nat \<times> string) list"
  sha256_hexdigest :: "string \<Rightarrow> string"
  utcnow_isoformat :: string
  json_dumps_error :: "manifest \<Rightarrow> exn option"
  str_isspace :: "char \<Rightarrow> bool"
  str_isalnum :: "char \<Rightarrow> bool"
  HAS_VALIDATOR :: bool

text \<open>
  The file system changes while the packager runs: \<open>world_now\<close> is the world when
  \<open>package\<close> is called, \<open>fs_unlink\<close> removes the old archive (or raises), and
  \<open>fs_open_write\<close> creates the archive file and gives the world as it is from then on,
  the new file in it.
\<close>

record machine =
  world_now :: world
  fs_unlink :: "path \<Rightarrow> exn option"
  fs_open_write :: "path \<Rightarrow> exn + world"

text \<open>\<open>dir.glob(pattern)\<close> and \<open>dir.rglob(pattern)\<close> for a pattern of one file name: the
  paths found whose name matches.\<close>

definition glob :: "world \<Rightarrow> path \<Rightarrow> string \<Rightarrow> exn + path list" where
  "glob w dir pattern =
     (case fs_glob_all w dir of
        Inl e \<Rightarrow> Inl e
      | Inr found \<Rightarrow> Inr (filter (\<lambda>p. fnmatch (path_name p) pattern) found))"

definition rglob :: "world \<Rightarrow> path \<Rightarrow> string \<Rightarrow> exn + path list" where
  "rglob w dir pattern =
     (case fs_rglob_all w dir of
        Inl e \<Rightarrow> Inl e
      | Inr found \<Rightarrow> Inr (filter (\<lambda>p. fnmatch (path_name p) pattern) found))"

section \<open>The validator\<close>

record SkillValidator =
  skill_path :: path
  skill_md_path :: path
  issues :: "ValidationIssue list"

text \<open>\<open>SkillValidator(skill_path)\<close>\<close>

definition SkillValidator_init :: "string \<Rightarrow> SkillValidator" where
  "SkillValidator_init p =
     \<lparr>skill_path = Path_of p, skill_md_path = child (Path_of p) ''SKILL.md'', issues = []\<rparr>"

definition issue :: "Severity \<Rightarrow> string \<Rightarrow> string \<Rightarrow> int option \<Rightarrow> string \<Rightarrow> ValidationIssue" where
  "issue sev msg loc ln fix =
     \<lparr>severity = sev, message = msg, location = loc, line_number = ln, fix_suggestion = fix\<rparr>"

text \<open>
  \<open>self.issues\<close> is written by \<open>append\<close> alone. A block of statements is modelled by the
  issues it appends, in order, and the exception that ended it, if one did; a method
  extends the list of the instance by what its blocks appended.
\<close>

type_synonym run = "ValidationIssue list \<times> exn option"

definition then_run :: "run \<Rightarrow> run \<Rightarrow> run" where
  "then_run a b = (case snd a of Some e \<Rightarrow> a | None \<Rightarrow> (fst a @ fst b, snd b))"

definition append_issues :: "SkillValidator \<Rightarrow> ValidationIssue list \<Rightarrow> SkillValidator" where
  "append_issues self new = self\<lparr>issues := issues self @ new\<rparr>"

definition REQUIRED_FRONTMATTER_KEYS :: "string list" where
  "REQUIRED_FRONTMATTER_KEYS = [''name'', ''description'', ''license'']"

text \<open>The two tables of patterns, each pattern as the predicate that \<open>re.search\<close> decides
  for it with the character tables of the world.\<close>

definition REQUIRED_SECTION_PATTERNS :: "world \<Rightarrow> ((string \<Rightarrow> bool) \<times> string) list" where
  "REQUIRED_SECTION_PATTERNS w =
     [(h1_here (str_isspace w), ''Main skill title (H1 header)''),
      (h2_here (str_isspace w) [''Overview'', ''About''], ''Overview or About section''),
      (h2_here (str_isspace w) [''When to Use'', ''Usage''], ''When to Use or Usage section''),
      (h2_here (str_isspace w) [''How to Use'', ''Instructions''], ''How to Use or Instructions section'')]"

definition FORBIDDEN_PATTERNS :: "world \<Rightarrow> ((string \<Rightarrow> bool) \<times> string \<times> string) list" where
  "FORBIDDEN_PATTERNS w =
     [(search_word (str_isalnum w) ''you'', ''Second-person pronoun '' @ q @ ''you'' @ q,
         ''Use imperative form instead (e.g., 'Load the file' not 'You should load')''),
      (search_word (str_isalnum w) ''your'', ''Second-person possessive '' @ q @ ''your'' @ q,
         ''Use imperative form instead (e.g., 'the file' not 'your file')''),
      (search_bracket, ''Placeholder text in brackets'', ''Replace [PLACEHOLDER] with actual content''),
      (search_literal_ci ''lorem ipsum'', ''Lorem ipsum placeholder'', ''Replace with real content''),
      (search_literal_ci ''todo:'', ''TODO comment'', ''Complete TODO before finalizing''),
      (search_literal_ci ''fixme:'', ''FIXME comment'', ''Fix issue before finalizing''),
      (search_literal_ci ''xxx:'', ''XXX marker'', ''Resolve marked issue'')]"

text \<open>The loop over the required keys; \<open>key not in frontmatter\<close> can raise.\<close>

fun required_keys :: "yaml \<Rightarrow> string list \<Rightarrow> run" where
  "required_keys fm [] = ([], None)"
| "required_keys fm (k # ks) =
     (case py_contains fm k of
        Inl e \<Rightarrow> ([], Some e)
      | Inr present \<Rightarrow>
          then_run
            (if \<not> present
             then [issue ERROR (''Missing required frontmatter key: '' @ q @ k @ q)
                     ''SKILL.md (frontmatter)'' None
                     (''Add '' @ q @ k @ '': <value>'' @ q @ '' to the YAML frontmatter'')]
             else [], None)
            (required_keys fm ks))"

definition name_issues :: "yaml \<Rightarrow> ValidationIssue list" where
  "name_issues name =
     (case name of
        YStr s \<Rightarrow>
          if s = [] then
            [issue ERROR (q @ ''name'' @ q @ '' must be a non-empty string'') ''SKILL.md (frontmatter)'' None
               ''Set name to a lowercase string with hyphens (e.g., 'my-skill')'']
          else if \<not> match_slug s then
            [issue WARNING (''Skill name '' @ q @ s @ q @ '' should use lowercase and hyphens only'')
               ''SKILL.md (frontmatter)'' None
               ''Use format: lowercase-with-hyphens (e.g., 'my-skill-name')'']
          else []
      | _ \<Rightarrow>
          [issue ERROR (q @ ''name'' @ q @ '' must be a non-empty string'') ''SKILL.md (frontmatter)'' None
             ''Set name to a lowercase string with hyphens (e.g., 'my-skill')''])"

definition description_issues :: "world \<Rightarrow> yaml \<Rightarrow> ValidationIssue list" where
  "description_issues w desc =
     (case desc of
        YStr s \<Rightarrow>
          if s = [] then
            [issue ERROR (q @ ''description'' @ q @ '' must be a non-empty string'')
               ''SKILL.md (frontmatter)'' None
               ''Add a clear description of when this skill should be used'']
          else
            (let wc = word_count (str_isspace w) s in
             if wc < 10 then
               [issue WARNING (''Description is very short ('' @ str_nat wc @ '' words)'')
                  ''SKILL.md (frontmatter)'' None
                  ''Add more detail (aim for 20-50 words) about when and how to use this skill'']
             else if wc > 100 then
               [issue WARNING (''Description is very long ('' @ str_nat wc @ '' words)'')
                  ''SKILL.md (frontmatter)'' None
                  ''Keep description concise (20-50 words) - details go in the body'']
             else [])
            @ (if search_word (str_isalnum w) ''you'' s \<or> search_word (str_isalnum w) ''your'' s then
                 [issue ERROR ''Description contains second-person pronouns (you/your)''
                    ''SKILL.md (frontmatter - description)'' None
                    (''Use third-person: 'This skill should be used when...' not 'Use this when you...'' @ q)]
               else [])
      | _ \<Rightarrow>
          [issue ERROR (q @ ''description'' @ q @ '' must be a non-empty string'')
             ''SKILL.md (frontmatter)'' None
             ''Add a clear description of when this skill should be used''])"

text \<open>\<open>if key in frontmatter: value = frontmatter[key]; ...\<close>\<close>

definition check_key :: "yaml \<Rightarrow> string \<Rightarrow> (yaml \<Rightarrow> ValidationIssue list) \<Rightarrow> run" where
  "check_key fm k checks =
     (case py_contains fm k of
        Inl e \<Rightarrow> ([], Some e)
      | Inr present \<Rightarrow>
          if present then
            (case py_getitem fm k of Inl e \<Rightarrow> ([], Some e) | Inr v \<Rightarrow> (checks v, None))
          else ([], None))"

definition section_issues :: "world \<Rightarrow> string \<Rightarrow> ValidationIssue list" where
  "section_issues w body =
     concat (map (\<lambda>(here, description).
                    if \<not> search_multiline here body then
                      [issue WARNING (''Missing recommended section: '' @ description)
                         ''SKILL.md (body)'' None (''Add a section for '' @ description)]
                    else [])
                 (REQUIRED_SECTION_PATTERNS w))"

definition forbidden_issues :: "world \<Rightarrow> string \<Rightarrow> string \<Rightarrow> ValidationIssue list" where
  "forbidden_issues w frontmatter_text body =
     concat (map (\<lambda>(line_num, line).
                    concat (map (\<lambda>(rx, name, fix).
                                   if rx line then
                                     [issue (if is_substring ''you'' (lower name) then ERROR else WARNING)
                                        (''Found '' @ name @ '': '' @ q
                                           @ take 50 (strip (str_isspace w) line) @ ''...'' @ q)
                                        ''SKILL.md''
                                        (Some (int (line_num + count_list frontmatter_text nl + 2)))
                                        fix]
                                   else [])
                                (FORBIDDEN_PATTERNS w)))
                 (enumerate 1 (split_char nl body)))"

definition body_length_issues :: "world \<Rightarrow> string \<Rightarrow> ValidationIssue list" where
  "body_length_issues w body =
     (let wc = word_count (str_isspace w) body in
      if wc < 50 then
        [issue WARNING (''SKILL.md body is very short ('' @ str_nat wc @ '' words)'') ''SKILL.md'' None
           ''Add more detail about how to use the skill (aim for 200-5000 words)'']
      else if wc > 5000 then
        [issue WARNING (''SKILL.md body is very long ('' @ str_nat wc @ '' words)'') ''SKILL.md'' None
           ''Consider moving detailed content to references/ folder (keep SKILL.md under 5000 words)'']
      else [])"

text \<open>The inner \<open>try\<close> block of \<open>_validate_skill_md\<close>.\<close>

definition skill_md_checks :: "world \<Rightarrow> string \<Rightarrow> run" where
  "skill_md_checks w content =
     (let parts = split_max ''---\<newline>'' 2 content in
      if length parts < 3 then
        ([issue ERROR (''YAML frontmatter not properly closed with '' @ q @ ''---'' @ q) ''SKILL.md'' None
            (''Ensure frontmatter ends with '' @ q @ ''---'' @ q @ '' on its own line'')], None)
      else
        (let frontmatter_text = parts ! 1; body = parts ! 2 in
         case yaml_safe_load w frontmatter_text of
           Inl e \<Rightarrow> ([], Some e)
         | Inr frontmatter \<Rightarrow>
             if frontmatter = YNull then
               ([issue ERROR ''YAML frontmatter is empty'' ''SKILL.md'' None
                   ''Add required fields: name, description, license''], None)
             else
               then_run (required_keys frontmatter REQUIRED_FRONTMATTER_KEYS)
              (then_run (check_key frontmatter ''name'' name_issues)
              (then_run (check_key frontmatter ''description'' (description_issues w))
                 (section_issues w body @ forbidden_issues w frontmatter_text body
                    @ body_length_issues w body,
                  None)))))"

text \<open>\<open>_validate_skill_md\<close>: the issues it appends, and the method.\<close>

definition reading_error :: "exn \<Rightarrow> ValidationIssue" where
  "reading_error e =
     issue ERROR (''Error reading SKILL.md: '' @ str_exn e) ''SKILL.md'' None
       ''Ensure file is readable and properly encoded (UTF-8)''"

definition skill_md_issues :: "world \<Rightarrow> SkillValidator \<Rightarrow> ValidationIssue list" where
  "skill_md_issues w self =
     (case fs_read_text w (skill_md_path self) of
        Inl e \<Rightarrow> [reading_error e]
      | Inr content \<Rightarrow>
          if \<not> startswith content ''---\<newline>'' then
            [issue ERROR ''SKILL.md must start with YAML frontmatter (---)'' ''SKILL.md'' (Some 1)
               ''Add YAML frontmatter at the top:\<newline>---\<newline>name: skill-name\<newline>description: ...\<newline>license: ...\<newline>---'']
          else
            (case skill_md_checks w content of
               (new, None) \<Rightarrow> new
             | (new, Some (YAMLError m)) \<Rightarrow>
                 new @ [issue ERROR (''YAML frontmatter parsing error: '' @ m) ''SKILL.md (frontmatter)''
                          None ''Check YAML syntax - ensure proper indentation and format'']
             | (new, Some e) \<Rightarrow> new @ [reading_error e]))"

definition validate_skill_md :: "world \<Rightarrow> SkillValidator \<Rightarrow> SkillValidator" where
  "validate_skill_md w self = append_issues self (skill_md_issues w self)"

text \<open>A library call that can raise, followed by the statements that use its value.\<close>

definition on_value :: "exn + 'a \<Rightarrow> ('a \<Rightarrow> run) \<Rightarrow> run" where
  "on_value r f = (case r of Inl e \<Rightarrow> ([], Some e) | Inr v \<Rightarrow> f v)"

definition expected_root_items :: "string \<Rightarrow> string list" where
  "expected_root_items folder_name =
     [''SKILL.md'', ''scripts'', ''references'', ''assets'', ''TESTING_GUIDE'', ''LICENSE.txt'', ''LICENSE'',
      ''README.md'', ''manifest.json'', ''.gitignore'', folder_name @ ''.zip'']"

text \<open>A folder that must be a directory when it exists; \<open>when_dir\<close> are the checks of its
  content.\<close>

definition folder_check :: "world \<Rightarrow> path \<Rightarrow> string \<Rightarrow> run \<Rightarrow> run" where
  "folder_check w dir name when_dir =
     on_value (fs_exists w dir) (\<lambda>found.
       if found then
         on_value (fs_is_dir w dir) (\<lambda>is_dir.
           if \<not> is_dir then
             ([issue ERROR (q @ name @ q @ '' exists but is not a directory'') (path_str dir) None
                 (''Remove the file and create a directory if '' @ name @ '' are needed'')], None)
           else when_dir)
       else ([], None))"

text \<open>The \<open>try\<close> block of \<open>_validate_file_structure\<close>.\<close>

definition file_structure_checks :: "world \<Rightarrow> SkillValidator \<Rightarrow> run" where
  "file_structure_checks w self =
     (let folder_name = path_name (skill_path self);
          scripts_dir = child (skill_path self) ''scripts'';
          references_dir = child (skill_path self) ''references'';
          assets_dir = child (skill_path self) ''assets'';
          testing_guide_dir = child (skill_path self) ''TESTING_GUIDE''
      in
      then_run
        (if \<not> match_slug folder_name then
           [issue WARNING
              (''Skill folder name '' @ q @ folder_name @ q @ '' should use lowercase and hyphens only'')
              (path_str (skill_path self)) None
              ''Rename folder to use format: lowercase-with-hyphens'']
         else [], None)
     (then_run
        (on_value (fs_iterdir w (skill_path self)) (\<lambda>items.
           (concat (map (\<lambda>item.
                      if startswith (path_name item) ''.'' then []
                      else if path_name item \<notin> set (expected_root_items folder_name) then
                        [issue INFO (''Unexpected item in skill root: '' @ path_name item) (path_str item) None
                           ''Only include: SKILL.md, scripts/, references/, assets/, TESTING_GUIDE/, LICENSE.txt'']
                      else [])
                    items), None)))
     (then_run
        (folder_check w scripts_dir ''scripts''
           (on_value (glob w scripts_dir ''*.py'') (\<lambda>py_files.
              (if py_files = [] then
                 [issue WARNING ''scripts/ folder exists but contains no .py files'' (path_str scripts_dir) None
                    ''Remove empty scripts/ folder or add Python scripts'']
               else [], None))))
     (then_run
        (folder_check w references_dir ''references''
           (on_value (glob w references_dir ''*.md'') (\<lambda>md_files.
            on_value (glob w references_dir ''*.txt'') (\<lambda>txt_files.
              (if md_files @ txt_files = [] then
                 [issue INFO ''references/ folder exists but contains no documentation files''
                    (path_str references_dir) None
                    ''Add .md or .txt reference files or remove empty folder'']
               else [], None)))))
     (then_run
        (folder_check w assets_dir ''assets'' ([], None))
        (on_value (fs_exists w testing_guide_dir) (\<lambda>found.
           (if \<not> found then
              [issue INFO ''No TESTING_GUIDE/ folder found'' (path_str (skill_path self)) None
                 ''Consider adding TESTING_GUIDE/ with sample data and test scenarios'']
            else [], None))))))))"

text \<open>What a method appends when its \<open>try\<close> block is handled by \<open>except Exception\<close>.\<close>

definition guarded :: "run \<Rightarrow> (exn \<Rightarrow> ValidationIssue) \<Rightarrow> ValidationIssue list" where
  "guarded r handler = (case snd r of None \<Rightarrow> fst r | Some e \<Rightarrow> fst r @ [handler e])"

text \<open>\<open>_validate_file_structure\<close>: the issues it appends, and the method.\<close>

definition file_structure_issues :: "world \<Rightarrow> SkillValidator \<Rightarrow> ValidationIssue list" where
  "file_structure_issues w self =
     guarded (file_structure_checks w self)
       (\<lambda>e. issue ERROR (''Error validating file structure: '' @ str_exn e) [] None
               ''Ensure directory permissions allow reading'')"

definition validate_file_structure :: "world \<Rightarrow> SkillValidator \<Rightarrow> SkillValidator" where
  "validate_file_structure w self = append_issues self (file_structure_issues w self)"

text \<open>The checks of one script: the body of the loop of \<open>_validate_python_scripts\<close>, whose
  own \<open>except Exception\<close> turns every failure into an issue.\<close>

definition has_docstring :: "ast \<Rightarrow> bool" where
  "has_docstring tree =
     (case ast_children tree of
        [] \<Rightarrow> False
      | first # _ \<Rightarrow>
          ast_class first = ''Expr'' \<and>
          (case ast_children first of
             [] \<Rightarrow> False
           | v # _ \<Rightarrow> ast_class v = ''Str'' \<or> ast_class v = ''Constant''))"

definition has_try_except :: "ast \<Rightarrow> bool" where
  "has_try_except tree =
     list_ex (\<lambda>node. ast_class node = ''Try'' \<or> ast_class node = ''ExceptHandler'') (ast_walk tree)"

definition script_issues :: "world \<Rightarrow> path \<Rightarrow> ValidationIssue list" where
  "script_issues w py_file =
     (let reading = (\<lambda>e. [issue ERROR (''Error reading '' @ path_name py_file @ '': '' @ str_exn e)
                             (path_str py_file) None ''Ensure file is readable and properly encoded'']) in
      case fs_read_text w py_file of
        Inl e \<Rightarrow> reading e
      | Inr content \<Rightarrow>
          (case ast_parse w content of
             Inl (SyntaxError lineno m) \<Rightarrow>
               [issue ERROR (''Python syntax error in '' @ path_name py_file) (path_str py_file) lineno
                  (''Fix syntax error: '' @ m)]
           | Inl e \<Rightarrow> reading e
           | Inr tree \<Rightarrow>
               (if \<not> has_docstring tree then
                  [issue WARNING (''Missing module docstring in '' @ path_name py_file) (path_str py_file) None
                     ''Add a docstring at the top explaining what the script does'']
                else [])
               @ (if \<not> has_try_except tree then
                    [issue WARNING (''No error handling (try/except) found in '' @ path_name py_file)
                       (path_str py_file) None ''Add try/except blocks for robust error handling'']
                  else [])
               @ (if \<not> (is_substring ''__name__'' content \<and> is_substring ''__main__'' content) then
                    [issue INFO (''No __main__ guard in '' @ path_name py_file) (path_str py_file) None
                       ''Add: if __name__ == '__main__': main()'']
                  else [])))"

text \<open>The \<open>try\<close> block of \<open>_validate_python_scripts\<close>.\<close>

definition python_scripts_checks :: "world \<Rightarrow> SkillValidator \<Rightarrow> run" where
  "python_scripts_checks w self =
     on_value (glob w (child (skill_path self) ''scripts'') ''*.py'') (\<lambda>py_files.
       (concat (map (script_issues w) py_files), None))"

text \<open>\<open>_validate_python_scripts\<close>: the test \<open>scripts_dir.exists()\<close> stands before the
  \<open>try\<close>, so what it raises leaves the method. The issues the method appends with the
  exception that leaves it, and the method.\<close>

definition python_scripts_run :: "world \<Rightarrow> SkillValidator \<Rightarrow> run" where
  "python_scripts_run w self =
     (case fs_exists w (child (skill_path self) ''scripts'') of
        Inl e \<Rightarrow> ([], Some e)
      | Inr found \<Rightarrow>
          if \<not> found then ([], None)
          else
            (guarded (python_scripts_checks w self)
               (\<lambda>e. issue ERROR (''Error validating Python scripts: '' @ str_exn e) [] None
                       ''Check scripts/ directory permissions''),
             None))"

definition validate_python_scripts :: "world \<Rightarrow> SkillValidator \<Rightarrow> exn option \<times> SkillValidator" where
  "validate_python_scripts w self =
     (snd (python_scripts_run w self), append_issues self (fst (python_scripts_run w self)))"

text \<open>The files that the two scans read: \<open>rglob\<close> of every pattern, without the paths that
  have \<open>TESTING_GUIDE\<close> among their parts.\<close>

fun collect_files :: "world \<Rightarrow> path \<Rightarrow> string list \<Rightarrow> exn + path list" where
  "collect_files w root [] = Inr []"
| "collect_files w root (pat # pats) =
     (case rglob w root pat of
        Inl e \<Rightarrow> Inl e
      | Inr found \<Rightarrow>
          (case collect_files w root pats of
             Inl e \<Rightarrow> Inl e
           | Inr rest \<Rightarrow> Inr (filter (\<lambda>f. ''TESTING_GUIDE'' \<notin> set (path_parts f)) found @ rest)))"

text \<open>\<open>content[:start].count('\n') + 1\<close>\<close>

definition line_of :: "string \<Rightarrow> nat \<Rightarrow> int" where
  "line_of content start = int (count_list (take start content) nl + 1)"

text \<open>
  The scan of one file in \<open>_validate_content_quality\<close>. Its \<open>except Exception: pass\<close>
  skips a file that cannot be read; \<open>relative_to\<close> raises at the first match, before
  anything is appended for the file.
\<close>

definition placeholder_issues :: "world \<Rightarrow> SkillValidator \<Rightarrow> path \<Rightarrow> ValidationIssue list" where
  "placeholder_issues w self text_file =
     (case fs_read_text w text_file of
        Inl e \<Rightarrow> []
      | Inr content \<Rightarrow>
          (case relative_to text_file (skill_path self) of
             Inl e \<Rightarrow> []
           | Inr rel \<Rightarrow>
               map (\<lambda>(start, text).
                      issue WARNING (''Placeholder text found: '' @ take 50 text) (path_str rel)
                        (Some (line_of content start)) ''Replace placeholder with actual content'')
                   (re_finditer w Placeholder content)))"

text \<open>\<open>_validate_content_quality\<close>: the issues it appends, and the method.\<close>

definition content_quality_issues :: "world \<Rightarrow> SkillValidator \<Rightarrow> ValidationIssue list" where
  "content_quality_issues w self =
     guarded
       (on_value (collect_files w (skill_path self) [''*.md'', ''*.txt'', ''*.py'']) (\<lambda>text_files.
          (concat (map (placeholder_issues w self) text_files), None)))
       (\<lambda>e. issue WARNING (''Error checking content quality: '' @ str_exn e) [] None
               ''Manual review recommended'')"

definition validate_content_quality :: "world \<Rightarrow> SkillValidator \<Rightarrow> SkillValidator" where
  "validate_content_quality w self = append_issues self (content_quality_issues w self)"

definition SECRETS_PATTERNS :: "(pattern \<times> string) list" where
  "SECRETS_PATTERNS =
     [(ApiKey, ''Possible API key''),
      (Password, ''Hardcoded password''),
      (Secret, ''Hardcoded secret''),
      (StripeKey, ''API key pattern (Stripe-like)''),
      (GithubToken, ''GitHub personal access token''),
      (SlackToken, ''Slack token''),
      (AwsKey, ''AWS Access Key ID''),
      (AccessToken, ''Access token'')]"

text \<open>The scan of one file in \<open>_check_for_secrets\<close>, with the same \<open>except Exception: pass\<close>.\<close>

definition secret_issues :: "world \<Rightarrow> SkillValidator \<Rightarrow> path \<Rightarrow> ValidationIssue list" where
  "secret_issues w self text_file =
     (case fs_read_text w text_file of
        Inl e \<Rightarrow> []
      | Inr content \<Rightarrow>
          (case relative_to text_file (skill_path self) of
             Inl e \<Rightarrow> []
           | Inr rel \<Rightarrow>
               concat (map (\<lambda>(pat, description).
                              map (\<lambda>(start, text).
                                     issue ERROR (description @ '' detected in '' @ path_name text_file)
                                       (path_str rel) (Some (line_of content start))
                                       ''Remove hardcoded secrets - use environment variables or configuration instead'')
                                  (re_finditer w pat content))
                           SECRETS_PATTERNS)))"

text \<open>\<open>_check_for_secrets\<close>: the issues it appends, and the method.\<close>

definition secrets_issues :: "world \<Rightarrow> SkillValidator \<Rightarrow> ValidationIssue list" where
  "secrets_issues w self =
     guarded
       (on_value (collect_files w (skill_path self)
                    [''*.md'', ''*.txt'', ''*.py'', ''*.yaml'', ''*.yml'', ''*.json'']) (\<lambda>text_files.
          (concat (map (secret_issues w self) text_files), None)))
       (\<lambda>e. issue WARNING (''Error checking for secrets: '' @ str_exn e) [] None
               ''Manual security review recommended'')"

definition check_for_secrets :: "world \<Rightarrow> SkillValidator \<Rightarrow> SkillValidator" where
  "check_for_secrets w self = append_issues self (secrets_issues w self)"

text \<open>\<open>return ok, self.issues\<close>: the list returned is the list of the instance.\<close>

definition returning :: "bool \<Rightarrow> SkillValidator \<Rightarrow> (bool \<times> ValidationIssue list) \<times> SkillValidator" where
  "returning ok self = ((ok, issues self), self)"

text \<open>The \<open>except Exception\<close> of \<open>validate\<close>.\<close>

definition unexpected :: "exn \<Rightarrow> SkillValidator \<Rightarrow> (bool \<times> ValidationIssue list) \<times> SkillValidator" where
  "unexpected e self =
     returning False
       (append_issues self [issue ERROR (''Unexpected error during validation: '' @ str_exn e) [] None
                       ''Please report this error''])"

text \<open>The five rule groups, called one after the other.\<close>

definition run_rule_groups :: "world \<Rightarrow> SkillValidator \<Rightarrow> (bool \<times> ValidationIssue list) \<times> SkillValidator" where
  "run_rule_groups w self =
     (let s1 = validate_skill_md w self;
          s2 = validate_file_structure w s1
      in case validate_python_scripts w s2 of
           (Some e, s3) \<Rightarrow> unexpected e s3
         | (None, s3) \<Rightarrow>
             (let s4 = validate_content_quality w s3;
                  s5 = check_for_secrets w s4;
                  has_errors = list_ex (\<lambda>i. severity i = ERROR) (issues s5)
              in returning (\<not> has_errors) s5))"

text \<open>\<open>SkillValidator.validate\<close>: the result and the instance after the call.\<close>

definition validate :: "world \<Rightarrow> SkillValidator \<Rightarrow> (bool \<times> ValidationIssue list) \<times> SkillValidator" where
  "validate w self =
     (case fs_exists w (skill_path self) of
        Inl e \<Rightarrow> unexpected e self
      | Inr found \<Rightarrow>
          if \<not> found then
            returning False
              (append_issues self [issue ERROR (''Skill path does not exist: '' @ path_str (skill_path self)) [] None
                              ''Ensure the path is correct and the directory exists''])
          else
            (case fs_is_dir w (skill_path self) of
               Inl e \<Rightarrow> unexpected e self
             | Inr is_dir \<Rightarrow>
                 if \<not> is_dir then
                   returning False
                     (append_issues self
                        [issue ERROR (''Skill path is not a directory: '' @ path_str (skill_path self)) [] None
                           ''Provide a path to a skill directory, not a file''])
                 else
                   (case fs_exists w (skill_md_path self) of
                      Inl e \<Rightarrow> unexpected e self
                    | Inr has_md \<Rightarrow>
                        if \<not> has_md then
                          returning False
                            (append_issues self
                               [issue ERROR ''SKILL.md file not found'' (path_str (skill_path self)) None
                                  ''Every skill must have a SKILL.md file in the root directory''])
                        else run_rule_groups w self)))"

text \<open>The validator as its callers use it (\<open>validate_skill_cli\<close>, \<open>SkillPackager.package\<close>):
  \<open>validator = SkillValidator(path); is_valid, issues = validator.validate()\<close>.\<close>

definition validate_path :: "world \<Rightarrow> string \<Rightarrow> bool \<times> ValidationIssue list" where
  "validate_path w p = fst (validate w (SkillValidator_init p))"

section \<open>The packager\<close>

record SkillPackager =
  packager_skill_path :: path
  skill_name :: string
  should_validate :: bool
  force :: bool
  packager_version :: string

text \<open>\<open>SkillPackager(skill_path, validate, force)\<close>\<close>

definition SkillPackager_init :: "world \<Rightarrow> string \<Rightarrow> bool \<Rightarrow> bool \<Rightarrow> SkillPackager" where
  "SkillPackager_init w p validate_flag force_flag =
     \<lparr>packager_skill_path = Path_of p, skill_name = path_name (Path_of p),
      should_validate = (validate_flag \<and> HAS_VALIDATOR w), force = force_flag,
      packager_version = ''1.0''\<rparr>"

definition EXCLUDED_PATTERNS :: "string list" where
  "EXCLUDED_PATTERNS =
     [''TESTING_GUIDE'', ''TESTING_GUIDE/*'', ''TESTING_GUIDE/**/*'', ''*.zip'', ''.*'', ''.git'', ''.git/*'',
      ''.git/**/*'', ''.gitignore'', ''.DS_Store'', ''Thumbs.db'', ''__pycache__'', ''__pycache__/*'',
      ''__pycache__/**/*'', ''*.pyc'', ''*.pyo'', ''*.pyd'', ''test_*.py'', ''*_test.py'', ''tests'',
      ''tests/*'', ''tests/**/*'', ''*.backup'', ''*.bak'', ''*.tmp'', ''*~'']"

text \<open>The loop of \<open>_should_include\<close> over the patterns, for the relative path as a string
  and the bare file name: no pattern may match.\<close>

definition not_excluded :: "string \<Rightarrow> string \<Rightarrow> bool" where
  "not_excluded rel_path_str name =
     list_all (\<lambda>pattern.
                 (let full_pattern = (if startswith pattern ''**/'' then pattern else ''**/'' @ pattern) in
                  \<not> (fnmatch rel_path_str pattern \<or> fnmatch rel_path_str full_pattern)
                  \<and> \<not> fnmatch name pattern))
              EXCLUDED_PATTERNS"

text \<open>\<open>s.replace('\\', '/')\<close>\<close>

definition forward_slashes :: "string \<Rightarrow> string" where
  "forward_slashes s = map (\<lambda>c. if c = CHR 0x5C then CHR ''/'' else c) s"

text \<open>\<open>_should_include\<close>\<close>

definition should_include :: "SkillPackager \<Rightarrow> path \<Rightarrow> bool" where
  "should_include self file_path =
     (case relative_to file_path (packager_skill_path self) of
        Inl e \<Rightarrow> False
      | Inr rel_path \<Rightarrow> not_excluded (forward_slashes (path_str rel_path)) (path_name file_path))"

text \<open>The blocks that \<open>f.read(4096)\<close> returns until it returns \<open>b""\<close>.\<close>

function blocks :: "nat \<Rightarrow> string \<Rightarrow> string list" where
  "blocks n s = (if n = 0 \<or> s = [] then [] else take n s # blocks n (drop n s))"
  by pat_completeness auto
termination
  by (relation "measure (\<lambda>(n, s). length s)") auto

text \<open>\<open>_calculate_checksum\<close>: every block is fed to the hash object with \<open>update\<close>, which
  appends it to the bytes hashed so far.\<close>

definition calculate_checksum :: "world \<Rightarrow> path \<Rightarrow> string" where
  "calculate_checksum w file_path =
     (case fs_read_bytes w file_path of
        Inl e \<Rightarrow> ''error''
      | Inr bytes \<Rightarrow> sha256_hexdigest w (foldl (\<lambda>fed byte_block. fed @ byte_block) [] (blocks 4096 bytes)))"

text \<open>\<open>bool(v)\<close>\<close>

fun truthy :: "yaml \<Rightarrow> bool" where
  "truthy YNull = False"
| "truthy (YBool b) = b"
| "truthy (YInt i) = (i \<noteq> 0)"
| "truthy (YStr s) = (s \<noteq> [])"
| "truthy (YSeq xs) = (xs \<noteq> [])"
| "truthy (YMap kvs) = (kvs \<noteq> [])"
| "truthy (YOther s) = True"

text \<open>\<open>if key in frontmatter: manifest[field] = frontmatter[key]\<close>\<close>

definition copy_key :: "yaml \<Rightarrow> string \<Rightarrow> exn + yaml option" where
  "copy_key fm k =
     (case py_contains fm k of
        Inl e \<Rightarrow> Inl e
      | Inr present \<Rightarrow>
          if present then (case py_getitem fm k of Inl e \<Rightarrow> Inl e | Inr v \<Rightarrow> Inr (Some v))
          else Inr None)"

text \<open>The \<open>try\<close> block of \<open>_create_manifest\<close> that copies \<open>description\<close> and \<open>name\<close> from
  the frontmatter; \<open>except Exception: pass\<close> keeps what was copied before a failure.\<close>

definition frontmatter_fields :: "world \<Rightarrow> SkillPackager \<Rightarrow> yaml option \<times> yaml option" where
  "frontmatter_fields w self =
     (let skill_md_path = child (packager_skill_path self) ''SKILL.md'' in
      case fs_exists w skill_md_path of
        Inl e \<Rightarrow> (None, None)
      | Inr found \<Rightarrow>
          if \<not> found then (None, None)
          else
            (case fs_read_text w skill_md_path of
               Inl e \<Rightarrow> (None, None)
             | Inr content \<Rightarrow>
                 if \<not> startswith content ''---\<newline>'' then (None, None)
                 else
                   (let parts = split_max ''---\<newline>'' 2 content in
                    if length parts < 3 then (None, None)
                    else
                      (case yaml_safe_load w (parts ! 1) of
                         Inl e \<Rightarrow> (None, None)
                       | Inr frontmatter \<Rightarrow>
                           if \<not> truthy frontmatter then (None, None)
                           else
                             (case copy_key frontmatter ''description'' of
                                Inl e \<Rightarrow> (None, None)
                              | Inr d \<Rightarrow>
                                  (case copy_key frontmatter ''name'' of
                                     Inl e \<Rightarrow> (d, None)
                                   | Inr n \<Rightarrow> (d, n)))))))"

text \<open>A loop that stores an entry for some of the paths it visits; \<open>entry\<close> can raise.\<close>

fun collect_entries ::
  "(path \<Rightarrow> exn + (string \<times> file_info) option) \<Rightarrow> path list \<Rightarrow> (string \<rightharpoonup> file_info)
     \<Rightarrow> exn + (string \<rightharpoonup> file_info)" where
  "collect_entries entry [] m = Inr m"
| "collect_entries entry (p # ps) m =
     (case entry p of
        Inl e \<Rightarrow> Inl e
      | Inr None \<Rightarrow> collect_entries entry ps m
      | Inr (Some (k, v)) \<Rightarrow> collect_entries entry ps (m(k \<mapsto> v)))"

text \<open>\<open>{'checksum': ..., 'size': ...}\<close> under the key \<open>str(rel_path)\<close>.\<close>

definition checksum_entry :: "world \<Rightarrow> SkillPackager \<Rightarrow> path \<Rightarrow> exn + (string \<times> file_info) option" where
  "checksum_entry w self file =
     (case relative_to file (packager_skill_path self) of
        Inl e \<Rightarrow> Inl e
      | Inr rel_path \<Rightarrow>
          (let sum = calculate_checksum w file in
           case fs_stat_size w file of
             Inl e \<Rightarrow> Inl e
           | Inr file_size \<Rightarrow> Inr (Some (path_str rel_path, \<lparr>checksum = Some sum, size = file_size\<rparr>))))"

text \<open>The body of the loop over \<open>scripts_dir.rglob('*.py')\<close>.\<close>

definition script_entry :: "world \<Rightarrow> SkillPackager \<Rightarrow> path \<Rightarrow> exn + (string \<times> file_info) option" where
  "script_entry w self script_file =
     (if should_include self script_file then checksum_entry w self script_file else Inr None)"

text \<open>The body of the loop over \<open>references_dir.rglob('*')\<close>.\<close>

definition reference_entry :: "world \<Rightarrow> SkillPackager \<Rightarrow> path \<Rightarrow> exn + (string \<times> file_info) option" where
  "reference_entry w self ref_file =
     (case fs_is_file w ref_file of
        Inl e \<Rightarrow> Inl e
      | Inr is_file \<Rightarrow>
          if is_file \<and> should_include self ref_file then checksum_entry w self ref_file else Inr None)"

text \<open>The body of the loop over \<open>assets_dir.rglob('*')\<close>: no checksum from 10 MiB on.\<close>

definition asset_entry :: "world \<Rightarrow> SkillPackager \<Rightarrow> path \<Rightarrow> exn + (string \<times> file_info) option" where
  "asset_entry w self asset_file =
     (case fs_is_file w asset_file of
        Inl e \<Rightarrow> Inl e
      | Inr is_file \<Rightarrow>
          if is_file \<and> should_include self asset_file then
            (case relative_to asset_file (packager_skill_path self) of
               Inl e \<Rightarrow> Inl e
             | Inr rel_path \<Rightarrow>
                 (case fs_stat_size w asset_file of
                    Inl e \<Rightarrow> Inl e
                  | Inr file_size \<Rightarrow>
                      Inr (Some (path_str rel_path,
                                 \<lparr>checksum = (if file_size < 10 * 1024 * 1024
                                               then Some (calculate_checksum w asset_file) else None),
                                  size = file_size\<rparr>))))
          else Inr None)"

text \<open>\<open>if dir.exists(): manifest['files'][name] = {}; for f in dir.rglob(pattern): ...\<close>\<close>

definition listing ::
  "world \<Rightarrow> path \<Rightarrow> string \<Rightarrow> (path \<Rightarrow> exn + (string \<times> file_info) option)
     \<Rightarrow> exn + (string \<rightharpoonup> file_info) option" where
  "listing w dir pattern entry =
     (case fs_exists w dir of
        Inl e \<Rightarrow> Inl e
      | Inr found \<Rightarrow>
          if \<not> found then Inr None
          else
            (case rglob w dir pattern of
               Inl e \<Rightarrow> Inl e
             | Inr paths \<Rightarrow>
                 (case collect_entries entry paths Map.empty of
                    Inl e \<Rightarrow> Inl e
                  | Inr m \<Rightarrow> Inr (Some m))))"

text \<open>A call that can raise, followed by the statements that use its value.\<close>

definition and_then :: "exn + 'a \<Rightarrow> ('a \<Rightarrow> exn + 'b) \<Rightarrow> exn + 'b" where
  "and_then r f = (case r of Inl e \<Rightarrow> Inl e | Inr v \<Rightarrow> f v)"

text \<open>\<open>_create_manifest\<close>\<close>

definition create_manifest :: "world \<Rightarrow> SkillPackager \<Rightarrow> exn + manifest" where
  "create_manifest w self =
     (let root = packager_skill_path self;
          copied = frontmatter_fields w self;
          sum = calculate_checksum w (child root ''SKILL.md'')
      in
      and_then (fs_stat_size w (child root ''SKILL.md'')) (\<lambda>skill_md_size.
      and_then (listing w (child root ''scripts'') ''*.py'' (script_entry w self)) (\<lambda>scripts.
      and_then (listing w (child root ''references'') ''*'' (reference_entry w self)) (\<lambda>references.
      and_then (listing w (child root ''assets'') ''*'' (asset_entry w self)) (\<lambda>assets.
        Inr \<lparr>manifest_name = skill_name self, manifest_version = ''1.0'',
             created = utcnow_isoformat w @ ''Z'',
             manifest_packager_version = packager_version self,
             description = fst copied, manifest_skill_name = snd copied,
             files_SKILL_md = \<lparr>checksum = Some sum, size = skill_md_size\<rparr>,
             files_scripts = scripts, files_references = references, files_assets = assets\<rparr>)))))"

text \<open>
  The archive: its entries in the order they are written, each with the name it is
  stored under (the \<open>arcname\<close> given to \<open>zf.write\<close>) and what is stored. The entry
  \<open>manifest.json\<close> holds \<open>json.dumps(manifest)\<close> and is kept as the manifest it
  serialises.
\<close>

datatype stored = Bytes string | Directory | Json manifest

type_synonym archive = "(path \<times> stored) list"

text \<open>The name of an entry in \<open>zf.namelist()\<close>.\<close>

definition entry_name :: "path \<times> stored \<Rightarrow> string" where
  "entry_name en = path_str (fst en) @ (case snd en of Directory \<Rightarrow> ''/'' | _ \<Rightarrow> [])"

text \<open>\<open>zf.write(file, arcname)\<close>: a directory gives an entry without content.\<close>

definition zip_write :: "world \<Rightarrow> path \<Rightarrow> path \<Rightarrow> exn + (path \<times> stored)" where
  "zip_write w file arcname =
     and_then (fs_is_dir w file) (\<lambda>is_dir.
       if is_dir then Inr (arcname, Directory)
       else and_then (fs_read_bytes w file) (\<lambda>bytes. Inr (arcname, Bytes bytes)))"

text \<open>The loop over \<open>dir_path.rglob('*')\<close> in \<open>_create_zip\<close>.\<close>

fun zip_files :: "world \<Rightarrow> SkillPackager \<Rightarrow> path list \<Rightarrow> exn + archive" where
  "zip_files w self [] = Inr []"
| "zip_files w self (file_path # rest) =
     (case fs_is_file w file_path of
        Inl e \<Rightarrow> Inl e
      | Inr is_file \<Rightarrow>
          if is_file \<and> should_include self file_path then
            (case and_then (relative_to file_path (packager_skill_path self)) (zip_write w file_path) of
               Inl e \<Rightarrow> Inl e
             | Inr en \<Rightarrow>
                 (case zip_files w self rest of
                    Inl e \<Rightarrow> Inl e
                  | Inr others \<Rightarrow> Inr (en # others)))
          else zip_files w self rest)"

text \<open>The body of the loop over \<open>['scripts', 'references', 'assets']\<close>.\<close>

definition zip_dir :: "world \<Rightarrow> SkillPackager \<Rightarrow> string \<Rightarrow> exn + archive" where
  "zip_dir w self dir_name =
     (let dir_path = child (packager_skill_path self) dir_name in
      and_then (fs_exists w dir_path) (\<lambda>found.
      and_then (if found then fs_is_dir w dir_path else Inr False) (\<lambda>is_dir.
        if is_dir then and_then (rglob w dir_path ''*'') (zip_files w self) else Inr [])))"

fun zip_dirs :: "world \<Rightarrow> SkillPackager \<Rightarrow> string list \<Rightarrow> exn + archive" where
  "zip_dirs w self [] = Inr []"
| "zip_dirs w self (dir_name # rest) =
     (case zip_dir w self dir_name of
        Inl e \<Rightarrow> Inl e
      | Inr written \<Rightarrow>
          (case zip_dirs w self rest of
             Inl e \<Rightarrow> Inl e
           | Inr others \<Rightarrow> Inr (written @ others)))"

text \<open>The loop over \<open>['LICENSE.txt', 'LICENSE']\<close>, left at the first file that exists.\<close>

fun zip_license :: "world \<Rightarrow> SkillPackager \<Rightarrow> string list \<Rightarrow> exn + archive" where
  "zip_license w self [] = Inr []"
| "zip_license w self (license_file # rest) =
     (case fs_exists w (child (packager_skill_path self) license_file) of
        Inl e \<Rightarrow> Inl e
      | Inr found \<Rightarrow>
          if found then
            and_then (zip_write w (child (packager_skill_path self) license_file) (Path [] [license_file]))
              (\<lambda>en. Inr [en])
          else zip_license w self rest)"

text \<open>\<open>_create_zip\<close>; the number it returns is the number of entries written. The archive
  file is opened first, and everything is read from the world as it is from then on.\<close>

definition create_zip :: "machine \<Rightarrow> SkillPackager \<Rightarrow> path \<Rightarrow> exn + archive" where
  "create_zip m self output_path =
     (case fs_open_write m output_path of
        Inl e \<Rightarrow> Inl e
      | Inr w \<Rightarrow>
          (let skill_md = child (packager_skill_path self) ''SKILL.md'' in
           and_then (fs_exists w skill_md) (\<lambda>found.
           and_then (if found then and_then (zip_write w skill_md (Path [] [''SKILL.md''])) (\<lambda>en. Inr [en])
                     else Inr []) (\<lambda>first.
           and_then (zip_dirs w self [''scripts'', ''references'', ''assets'']) (\<lambda>content.
           and_then (zip_license w self [''LICENSE.txt'', ''LICENSE'']) (\<lambda>license.
           and_then (create_manifest w self) (\<lambda>manifest.
             (case json_dumps_error w manifest of
                Some e \<Rightarrow> Inl e
              | None \<Rightarrow>
                  Inr (first @ content @ license @ [(Path [] [''manifest.json''], Json manifest)])))))))))"

text \<open>\<open>input(prompt)\<close>: the next line of the standard input, \<open>EOFError\<close> at its end.\<close>

definition input :: "string list \<Rightarrow> exn + (string \<times> string list)" where
  "input stdin = (case stdin of [] \<Rightarrow> Inl (OtherError ''EOF when reading a line'')
                  | line # rest \<Rightarrow> Inr (line, rest))"

text \<open>
  The validation step of \<open>package\<close>: it raises, or tells whether packaging goes on
  (\<open>False\<close> is \<open>return None\<close>) and what is left of the standard input.
\<close>

definition validation_gate :: "world \<Rightarrow> SkillPackager \<Rightarrow> string list \<Rightarrow> exn + (bool \<times> string list)" where
  "validation_gate w self stdin =
     (if should_validate self then
        (let result = validate_path w (path_str (packager_skill_path self));
             errors = filter (\<lambda>i. severity i = ERROR) (snd result);
             warnings = filter (\<lambda>i. severity i = WARNING) (snd result)
         in
         if errors \<noteq> [] \<and> \<not> force self then Inl (OtherError ''Skill validation failed'')
         else if warnings \<noteq> [] \<and> \<not> force self then
           and_then (input stdin) (\<lambda>(response, rest). Inr (lower response = ''y'', rest))
         else Inr (True, stdin))
      else Inr (True, stdin))"

text \<open>The overwrite step of \<open>package\<close>.\<close>

definition overwrite_gate :: "machine \<Rightarrow> path \<Rightarrow> string list \<Rightarrow> exn + bool" where
  "overwrite_gate m output_path stdin =
     and_then (fs_exists (world_now m) output_path) (\<lambda>found.
       if found then
         and_then (input stdin) (\<lambda>(response, rest).
           if lower response \<noteq> ''y'' then Inr False
           else (case fs_unlink m output_path of Some e \<Rightarrow> Inl e | None \<Rightarrow> Inr True))
       else Inr True)"

text \<open>
  What a call of \<open>package\<close> does: it raises, it returns \<open>None\<close>, or it writes the archive
  and returns a string.
\<close>

datatype outcome = Raised exn | Returned_None | is_Packaged: Packaged (returned: string) (archive_of: archive)

text \<open>\<open>self.skill_path / f"{self.skill_name}.zip"\<close>, or \<open>Path(output_path)\<close>.\<close>

definition resolve_output :: "SkillPackager \<Rightarrow> string option \<Rightarrow> path" where
  "resolve_output self output_path =
     (case output_path of
        None \<Rightarrow> child (packager_skill_path self) (skill_name self @ ''.zip'')
      | Some p \<Rightarrow> Path_of p)"

text \<open>\<open>SkillPackager.package\<close>; what it prints, the size of the archive among it, is left
  out.\<close>

definition package :: "machine \<Rightarrow> SkillPackager \<Rightarrow> string option \<Rightarrow> string list \<Rightarrow> outcome" where
  "package m self output_path stdin =
     (let root = packager_skill_path self; w = world_now m in
      case fs_exists w root of
        Inl e \<Rightarrow> Raised e
      | Inr found \<Rightarrow>
          if \<not> found then Raised (OtherError (''Skill path does not exist: '' @ path_str root))
          else
            (case fs_is_dir w root of
               Inl e \<Rightarrow> Raised e
             | Inr is_dir \<Rightarrow>
                 if \<not> is_dir then Raised (OtherError (''Skill path is not a directory: '' @ path_str root))
                 else
                   (case fs_exists w (child root ''SKILL.md'') of
                      Inl e \<Rightarrow> Raised e
                    | Inr has_md \<Rightarrow>
                        if \<not> has_md then Raised (OtherError (''SKILL.md not found in '' @ path_str root))
                        else
                          (case validation_gate w self stdin of
                             Inl e \<Rightarrow> Raised e
                           | Inr (go_on, stdin') \<Rightarrow>
                               if \<not> go_on then Returned_None
                               else
                                 (let out = resolve_output self output_path in
                                  case overwrite_gate m out stdin' of
                                    Inl e \<Rightarrow> Raised e
                                  | Inr go_on' \<Rightarrow>
                                      if \<not> go_on' then Returned_None
                                      else
                                        (case create_zip m self out of
                                           Inl e \<Rightarrow> Raised e
                                         | Inr written \<Rightarrow> Packaged (path_str out) written))))))"

section \<open>Reading an archive back\<close>

text \<open>\<open>zf.namelist()\<close>\<close>

definition namelist :: "archive \<Rightarrow> string list" where
  "namelist a = map entry_name a"

text \<open>\<open>json.loads(zf.read('manifest.json'))\<close>: the manifest of the first entry that holds one.\<close>

fun read_manifest :: "archive \<Rightarrow> manifest option" where
  "read_manifest [] = None"
| "read_manifest ((arcname, Json m) # rest) = Some m"
| "read_manifest (en # rest) = read_manifest rest"

text \<open>\<open>manifest["files"]["scripts"].get(key)\<close>\<close>

definition scripts_entry :: "archive \<Rightarrow> string \<Rightarrow> file_info option" where
  "scripts_entry a key =
     (case read_manifest a of
        None \<Rightarrow> None
      | Some m \<Rightarrow> (case files_scripts m of None \<Rightarrow> None | Some scripts \<Rightarrow> scripts key))"

text \<open>The file of the bundle that an entry stored under \<open>arcname\<close> was read from.\<close>

definition source_of :: "SkillPackager \<Rightarrow> path \<Rightarrow> path" where
  "source_of self arcname =
     Path (anchor (packager_skill_path self)) (comps (packager_skill_path self) @ comps arcname)"

text \<open>
  The categories that the specification excludes from an archive, for the name an entry
  is stored under: what lies in a \<open>TESTING_GUIDE\<close> directory at any depth, dotfiles
  and what lies in a dot-directory, compiled bytecode (\<open>.pyc\<close>, \<open>.pyo\<close>, what lies in a
  \<open>__pycache__\<close> directory), and \<open>.zip\<close> files.
\<close>

definition spec_excluded_category :: "path \<Rightarrow> bool" where
  "spec_excluded_category arcname =
     (''TESTING_GUIDE'' \<in> set (comps arcname)
      \<or> list_ex (\<lambda>c. startswith c ''.'') (comps arcname)
      \<or> ''__pycache__'' \<in> set (comps arcname)
      \<or> (comps arcname \<noteq> [] \<and>
           (endswith (last (comps arcname)) ''.pyc'' \<or> endswith (last (comps arcname)) ''.pyo''
            \<or> endswith (last (comps arcname)) ''.zip'')))"

section \<open>Example bundles\<close>

text \<open>
  A world built from a listing of paths: the regular files with their content and the
  folders. Nothing in it raises except reading or listing what is not there; the
  frontmatter parser is a table, no pattern of \<open>re.finditer\<close> matches, every script
  parses to an empty module, the digest is a tagged copy of the bytes, and the character
  tables are the ASCII part of Python's tables.
\<close>

definition ascii_isspace :: "char \<Rightarrow> bool" where
  "ascii_isspace c = (c \<in> set [CHR 0x09, CHR 0x0A, CHR 0x0B, CHR 0x0C, CHR 0x0D,
                                 CHR 0x1C, CHR 0x1D, CHR 0x1E, CHR 0x1F, CHR 0x20])"

definition ascii_isalnum :: "char \<Rightarrow> bool" where
  "ascii_isalnum c = (c \<in> set ''abcdefghijklmnopqrstuvwxyzABCDEFGHIJKLMNOPQRSTUVWXYZ0123456789'')"

datatype node = RegularFile string | Folder

definition parent :: "path \<Rightarrow> path" where
  "parent p = Path (anchor p) (butlast (comps p))"

definition below :: "path \<Rightarrow> path \<Rightarrow> bool" where
  "below dir p = (anchor p = anchor dir \<and> length (comps dir) < length (comps p)
                  \<and> take (length (comps dir)) (comps p) = comps dir)"

definition example_world :: "(path \<times> node) list \<Rightarrow> (string \<times> yaml) list \<Rightarrow> world" where
  "example_world tree frontmatters =
     \<lparr>fs_exists = (\<lambda>p. Inr (map_of tree p \<noteq> None)),
      fs_is_dir = (\<lambda>p. Inr (map_of tree p = Some Folder)),
      fs_is_file = (\<lambda>p. Inr (case map_of tree p of Some (RegularFile c) \<Rightarrow> True | _ \<Rightarrow> False)),
      fs_read_text = (\<lambda>p. case map_of tree p of Some (RegularFile c) \<Rightarrow> Inr c
                           | _ \<Rightarrow> Inl (OtherError ''cannot read'')),
      fs_read_bytes = (\<lambda>p. case map_of tree p of Some (RegularFile c) \<Rightarrow> Inr c
                            | _ \<Rightarrow> Inl (OtherError ''cannot read'')),
      fs_stat_size = (\<lambda>p. case map_of tree p of Some (RegularFile c) \<Rightarrow> Inr (length c)
                           | Some Folder \<Rightarrow> Inr 4096
                           | None \<Rightarrow> Inl (OtherError ''No such file or directory'')),
      fs_iterdir = (\<lambda>p. if map_of tree p = Some Folder
                         then Inr (filter (\<lambda>x. comps x \<noteq> [] \<and> parent x = p) (map fst tree))
                         else Inl (OtherError ''Not a directory'')),
      fs_glob_all = (\<lambda>p. Inr (filter (\<lambda>x. comps x \<noteq> [] \<and> parent x = p) (map fst tree))),
      fs_rglob_all = (\<lambda>p. Inr (filter (below p) (map fst tree))),
      yaml_safe_load = (\<lambda>t. case map_of frontmatters t of Some v \<Rightarrow> Inr v
                             | None \<Rightarrow> Inl (YAMLError ''cannot parse'')),
      ast_parse = (\<lambda>t. Inr (Node ''Module'' [])),
      re_finditer = (\<lambda>pat t. []),
      sha256_hexdigest = (\<lambda>bytes. ''sha256:'' @ bytes),
      utcnow_isoformat = ''2024-01-01T00:00:00'',
      json_dumps_error = (\<lambda>m. None),
      str_isspace = ascii_isspace,
      str_isalnum = ascii_isalnum,
      HAS_VALIDATOR = True\<rparr>"

text \<open>The machine for such a world: removing a file raises nothing, and opening the
  archive adds an empty file at its path.\<close>

definition example_machine :: "(path \<times> node) list \<Rightarrow> (string \<times> yaml) list \<Rightarrow> machine" where
  "example_machine tree frontmatters =
     \<lparr>world_now = example_world tree frontmatters,
      fs_unlink = (\<lambda>p. None),
      fs_open_write = (\<lambda>p. Inr (example_world (filter (\<lambda>(x, n). x \<noteq> p) tree @ [(p, RegularFile [])])
                                    frontmatters))\<rparr>"

text \<open>A folder \<open>demo\<close> without \<open>SKILL.md\<close>.\<close>

definition bundle_without_manifest :: world where
  "bundle_without_manifest =
     example_world [(Path [] [''demo''], Folder), (Path [] [''demo'', ''notes.txt''], RegularFile ''you'')] []"

text \<open>A bundle with a manifest whose third body line holds both pronouns.\<close>

definition demo_frontmatter :: string where
  "demo_frontmatter = ''name: demo\<newline>license: MIT\<newline>''"

definition demo_manifest :: string where
  "demo_manifest = ''---\<newline>'' @ demo_frontmatter @ ''---\<newline># Demo\<newline>\<newline>Load your file when you can.\<newline>''"

definition demo_bundle :: world where
  "demo_bundle =
     example_world
       [(Path [] [''demo''], Folder),
        (Path [] [''demo'', ''SKILL.md''], RegularFile demo_manifest),
        (Path [] [''demo'', ''TESTING_GUIDE''], Folder)]
       [(demo_frontmatter, YMap [(YStr ''name'', YStr ''demo''), (YStr ''license'', YStr ''MIT'')])]"


text \<open>A bundle with nothing to report but a short body.\<close>

definition clean_frontmatter :: string where
  "clean_frontmatter =
     ''name: demo\<newline>description: Formats the tables of a report when a memo needs its numbers in rows\<newline>license: MIT\<newline>''"

definition clean_manifest :: string where
  "clean_manifest =
     ''---\<newline>'' @ clean_frontmatter @ ''---\<newline># Demo\<newline>## Overview\<newline>## Usage\<newline>## Instructions\<newline>''"

definition clean_bundle :: world where
  "clean_bundle =
     example_world
       [(Path [] [''demo''], Folder),
        (Path [] [''demo'', ''SKILL.md''], RegularFile clean_manifest),
        (Path [] [''demo'', ''TESTING_GUIDE''], Folder)]
       [(clean_frontmatter,
         YMap [(YStr ''name'', YStr ''demo''),
               (YStr ''description'',
                YStr ''Formats the tables of a report when a memo needs its numbers in rows''),
               (YStr ''license'', YStr ''MIT'')])]"

text \<open>The same bundle when the recursive scan of the folder fails, and when listing the
  folder fails.\<close>

definition scan_failure_bundle :: world where
  "scan_failure_bundle = clean_bundle\<lparr>fs_rglob_all := (\<lambda>p. Inl (OtherError ''boom''))\<rparr>"

definition listing_failure_bundle :: world where
  "listing_failure_bundle = clean_bundle\<lparr>fs_iterdir := (\<lambda>p. Inl (OtherError ''denied''))\<rparr>"

text \<open>
  A bundle \<open>demo\<close> (a relative path) to package: the manifest, a data file, a stale
  archive and a directory named \<open>pkg.py\<close> under \<open>scripts\<close>, and a folder of test
  material.
\<close>

definition packaged_bundle :: machine where
  "packaged_bundle =
     example_machine
       [(Path [] [''demo''], Folder),
        (Path [] [''demo'', ''SKILL.md''], RegularFile clean_manifest),
        (Path [] [''demo'', ''scripts''], Folder),
        (Path [] [''demo'', ''scripts'', ''data.txt''], RegularFile ''1,2''),
        (Path [] [''demo'', ''scripts'', ''old.zip''], RegularFile ''PK''),
        (Path [] [''demo'', ''scripts'', ''pkg.py''], Folder),
        (Path [] [''demo'', ''TESTING_GUIDE''], Folder),
        (Path [] [''demo'', ''TESTING_GUIDE'', ''notes.md''], RegularFile ''notes'')]
       [(clean_frontmatter,
         YMap [(YStr ''name'', YStr ''demo''),
               (YStr ''description'',
                YStr ''Formats the tables of a report when a memo needs its numbers in rows''),
               (YStr ''license'', YStr ''MIT'')])]"

text \<open>The bundle \<open>demo\<close> of above with an archive \<open>demo/demo.zip\<close> already there.\<close>

definition repackaged_bundle :: machine where
  "repackaged_bundle =
     example_machine
       [(Path [] [''demo''], Folder),
        (Path [] [''demo'', ''SKILL.md''], RegularFile clean_manifest),
        (Path [] [''demo'', ''TESTING_GUIDE''], Folder),
        (Path [] [''demo'', ''demo.zip''], RegularFile ''PK'')]
       [(clean_frontmatter,
         YMap [(YStr ''name'', YStr ''demo''),
               (YStr ''description'',
                YStr ''Formats the tables of a report when a memo needs its numbers in rows''),
               (YStr ''license'', YStr ''MIT'')])]"

section \<open>The validator only appends to its list of issues\<close>

lemma issues_append [simp]: "issues (append_issues self new) = issues self @ new"
  by (simp add: append_issues_def)

lemma skill_path_append [simp]: "skill_path (append_issues self new) = skill_path self"
  by (simp add: append_issues_def)

lemma skill_md_path_append [simp]: "skill_md_path (append_issues self new) = skill_md_path self"
  by (simp add: append_issues_def)

lemma append_append [simp]: "append_issues (append_issues self a) b = append_issues self (a @ b)"
  by (simp add: append_issues_def)

lemmas case_congs = sum.case_cong option.case_cong prod.case_cong list.case_cong exn.case_cong if_cong

lemma skill_md_issues_append [simp]: "skill_md_issues w (append_issues self xs) = skill_md_issues w self"
  by (simp add: skill_md_issues_def)

lemma file_structure_issues_append [simp]:
  "file_structure_issues w (append_issues self xs) = file_structure_issues w self"
  by (simp add: file_structure_issues_def file_structure_checks_def cong: case_congs)

lemma python_scripts_run_append [simp]:
  "python_scripts_run w (append_issues self xs) = python_scripts_run w self"
  by (simp add: python_scripts_run_def python_scripts_checks_def cong: case_congs)

lemma placeholder_issues_append [simp]:
  "placeholder_issues w (append_issues self xs) = placeholder_issues w self"
  by (rule ext) (simp add: placeholder_issues_def cong: case_congs)

lemma secret_issues_append [simp]: "secret_issues w (append_issues self xs) = secret_issues w self"
  by (rule ext) (simp add: secret_issues_def cong: case_congs)

lemma content_quality_issues_append [simp]:
  "content_quality_issues w (append_issues self xs) = content_quality_issues w self"
  by (simp add: content_quality_issues_def)

lemma secrets_issues_append [simp]: "secrets_issues w (append_issues self xs) = secrets_issues w self"
  by (simp add: secrets_issues_def)

lemma run_rule_groups_issues:
  "issues (snd (run_rule_groups w self)) =
     issues self @ skill_md_issues w self @ file_structure_issues w self @ fst (python_scripts_run w self) @
       (case snd (python_scripts_run w self) of
          Some e \<Rightarrow> [issue ERROR (''Unexpected error during validation: '' @ str_exn e) [] None
                        ''Please report this error'']
        | None \<Rightarrow> content_quality_issues w self @ secrets_issues w self)"
  by (simp add: run_rule_groups_def validate_skill_md_def validate_file_structure_def
      validate_python_scripts_def validate_content_quality_def check_for_secrets_def
      unexpected_def returning_def split: option.split)

lemma run_rule_groups_result:
  "fst (run_rule_groups w self) =
     (\<not> list_ex (\<lambda>i. severity i = ERROR) (issues (snd (run_rule_groups w self))),
      issues (snd (run_rule_groups w self)))"
  by (auto simp add: run_rule_groups_def validate_skill_md_def validate_file_structure_def
      validate_python_scripts_def validate_content_quality_def check_for_secrets_def
      unexpected_def returning_def issue_def Let_def list_ex_iff split: option.split)

lemma validate_result:
  "fst (validate w self) =
     (\<not> list_ex (\<lambda>i. severity i = ERROR) (issues (snd (validate w self))),
      issues (snd (validate w self)))"
  by (simp add: validate_def run_rule_groups_result unexpected_def returning_def issue_def
      list_ex_iff split: sum.split)

lemma validate_issues:
  "issues (snd (validate w self)) = issues self @ issues (snd (validate w (self\<lparr>issues := []\<rparr>)))"
proof -
  have a: "self = append_issues (self\<lparr>issues := []\<rparr>) (issues self)"
    by (simp add: append_issues_def)
  have b: "issues (snd (validate w (append_issues s xs))) = xs @ issues (snd (validate w s))"
    if "issues s = []" for s xs
    using that
    by (simp add: validate_def run_rule_groups_issues unexpected_def returning_def
        split: sum.split option.split)
  show ?thesis
    by (subst a, subst b) simp_all
qed



lemma validate_state: "\<exists>new. snd (validate w self) = append_issues self new"
proof -
  have "snd (run_rule_groups w self) =
          append_issues self (drop (length (issues self)) (issues (snd (run_rule_groups w self))))"
    by (simp add: run_rule_groups_def validate_skill_md_def validate_file_structure_def
        validate_python_scripts_def validate_content_quality_def check_for_secrets_def
        unexpected_def returning_def Let_def split: option.split)
  then have "\<exists>new. snd (run_rule_groups w self) = append_issues self new" ..
  moreover have "\<exists>new. append_issues self xs = append_issues self new" for xs
    by blast
  ultimately show ?thesis
    by (simp add: validate_def unexpected_def returning_def split: sum.split)
qed

lemma validate_again:
  "issues (snd (validate w (snd (validate w self)))) =
     issues (snd (validate w self)) @ drop (length (issues self)) (issues (snd (validate w self)))"
proof -
  obtain new where new: "snd (validate w self) = append_issues self new"
    using validate_state by blast
  have eq: "(append_issues self new)\<lparr>issues := []\<rparr> = self\<lparr>issues := []\<rparr>"
    by (simp add: append_issues_def)
  have "issues (snd (validate w (append_issues self new))) =
          issues (append_issues self new)
          @ issues (snd (validate w ((append_issues self new)\<lparr>issues := []\<rparr>)))"
    by (rule validate_issues)
  then have "issues (snd (validate w (append_issues self new))) =
               (issues self @ new) @ issues (snd (validate w (self\<lparr>issues := []\<rparr>)))"
    by (simp only: eq issues_append)
  moreover have "issues (snd (validate w self)) = issues self @ issues (snd (validate w (self\<lparr>issues := []\<rparr>)))"
    by (rule validate_issues)
  ultimately show ?thesis
    using new by simp
qed

section \<open>Splitting the manifest into frontmatter, body and lines\<close>




lemma split_char_not_Nil [simp]: "split_char c s \<noteq> []"
  by (induction s) (auto split: list.splits)




section \<open>What the rule groups contribute\<close>

lemma then_run_None [simp]: "then_run (a, None) (b, r) = (a @ b, r)"
  by (simp add: then_run_def)






lemma validate_groups:
  assumes "fs_exists w (skill_path self) = Inr True"
    and "fs_is_dir w (skill_path self) = Inr True"
    and "fs_exists w (skill_md_path self) = Inr True"
  shows "snd (fst (validate w self)) =
     issues self @ skill_md_issues w self @ file_structure_issues w self @ fst (python_scripts_run w self) @
       (case snd (python_scripts_run w self) of
          Some e \<Rightarrow> [issue ERROR (''Unexpected error during validation: '' @ str_exn e) [] None
                        ''Please report this error'']
        | None \<Rightarrow> content_quality_issues w self @ secrets_issues w self)"
proof -
  have "validate w self = run_rule_groups w self"
    using assms by (simp add: validate_def)
  then show ?thesis
    by (simp only: run_rule_groups_result run_rule_groups_issues snd_conv)
qed




lemma validate_from_groups:
  assumes "fs_exists w (skill_path self) = Inr True"
    and "fs_is_dir w (skill_path self) = Inr True"
    and "fs_exists w (skill_md_path self) = Inr True"
    and "issues self = []"
    and "skill_md_issues w self = a"
    and "file_structure_issues w self = b"
    and "python_scripts_run w self = (c, None)"
    and "content_quality_issues w self = d"
    and "secrets_issues w self = e"
  shows "fst (validate w self) =
           (\<not> list_ex (\<lambda>i. severity i = ERROR) (a @ b @ c @ d @ e), a @ b @ c @ d @ e)"
proof -
  have "snd (fst (validate w self)) = a @ b @ c @ d @ e"
    using assms(4-9) by (simp add: validate_groups [OF assms(1,2,3)])
  then show ?thesis
    using validate_result [of w self] by simp
qed

section \<open>Properties of the validator\<close>

text \<open>
  C6: for a bundle directory that exists and has no \<open>SKILL.md\<close>, \<open>validate\<close> on a new
  instance returns \<open>is_valid = False\<close> and exactly one issue; the issue is an ERROR
  whose message names \<open>SKILL.md\<close>. The list holds nothing else, whatever the rest of
  the bundle is: no rule group has run.
\<close>

theorem missing_manifest_one_error:
  assumes "fs_exists w (skill_path self) = Inr True"
    and "fs_is_dir w (skill_path self) = Inr True"
    and "fs_exists w (skill_md_path self) = Inr False"
    and "issues self = []"
  shows "fst (validate w self) =
           (False, [issue ERROR ''SKILL.md file not found'' (path_str (skill_path self)) None
                      ''Every skill must have a SKILL.md file in the root directory''])
         \<and> is_substring ''SKILL.md'' ''SKILL.md file not found''"
proof -
  have "is_substring ''SKILL.md'' ''SKILL.md file not found''"
    by code_simp
  with assms show ?thesis
    by (simp add: validate_def returning_def)
qed

theorem missing_manifest_one_error_witness:
  "fst (validate bundle_without_manifest (SkillValidator_init ''demo'')) =
     (False, [issue ERROR ''SKILL.md file not found'' ''demo'' None
                ''Every skill must have a SKILL.md file in the root directory''])"
proof -
  let ?self = "SkillValidator_init ''demo''"
  have h1: "fs_exists bundle_without_manifest (skill_path ?self) = Inr True" by code_simp
  have h2: "fs_is_dir bundle_without_manifest (skill_path ?self) = Inr True" by code_simp
  have h3: "fs_exists bundle_without_manifest (skill_md_path ?self) = Inr False" by code_simp
  have h4: "issues ?self = []" by code_simp
  have p: "path_str (skill_path ?self) = ''demo''" by code_simp
  show ?thesis
    using missing_manifest_one_error [OF h1 h2 h3 h4] by (simp add: p)
qed

text \<open>
  C1: for a bundle path that exists, is a directory and holds \<open>SKILL.md\<close>, the
  \<open>is_valid\<close> that \<open>validate\<close> returns is true exactly when no issue of the returned
  list has severity ERROR; WARNING and INFO issues do not count.
\<close>

theorem valid_iff_no_error:
  assumes "fs_exists w (skill_path self) = Inr True"
    and "fs_is_dir w (skill_path self) = Inr True"
    and "fs_exists w (skill_md_path self) = Inr True"
    and "validate w self = ((is_valid, found), self')"
  shows "is_valid \<longleftrightarrow> (\<forall>i \<in> set found. severity i \<noteq> ERROR)"
proof -
  have "fst (validate w self) = (is_valid, found)"
    using assms(4) by simp
  then show ?thesis
    by (auto simp add: validate_result list_ex_iff)
qed

theorem valid_iff_no_error_witness:
  "fst (validate_path demo_bundle ''demo'') \<longleftrightarrow>
     (\<forall>i \<in> set (snd (validate_path demo_bundle ''demo'')). severity i \<noteq> ERROR)"
proof -
  let ?self = "SkillValidator_init ''demo''"
  have h1: "fs_exists demo_bundle (skill_path ?self) = Inr True" by code_simp
  have h2: "fs_is_dir demo_bundle (skill_path ?self) = Inr True" by code_simp
  have h3: "fs_exists demo_bundle (skill_md_path ?self) = Inr True" by code_simp
  have h4: "validate demo_bundle ?self =
              ((fst (validate_path demo_bundle ''demo''), snd (validate_path demo_bundle ''demo'')),
               snd (validate demo_bundle ?self))"
    by (simp add: validate_path_def)
  show ?thesis
    using valid_iff_no_error [OF h1 h2 h3 h4] .
qed




text \<open>
  C9: the list of issues is a field of the instance and is only appended to. The list
  that \<open>validate\<close> returns is that field; a second call on the same instance returns a
  list that starts with the whole list of the first call, followed by the issues of the
  first call once more: nothing resets the field.
\<close>

theorem issues_accumulate:
  assumes "validate w self = (r1, self1)" and "validate w self1 = (r2, self2)"
  shows "issues self1 = snd r1
         \<and> take (length (snd r1)) (snd r2) = snd r1
         \<and> snd r2 = snd r1 @ drop (length (issues self)) (snd r1)"
proof -
  have r1: "snd r1 = issues self1"
    using validate_result [of w self] assms(1) by simp
  have r2: "snd r2 = issues self2"
    using validate_result [of w self1] assms(2) by simp
  have "issues self2 = issues self1 @ drop (length (issues self)) (issues self1)"
    using validate_again [of w self] assms by simp
  with r1 r2 show ?thesis by simp
qed

theorem issues_accumulate_witness:
  "snd (fst (validate demo_bundle (snd (validate demo_bundle (SkillValidator_init ''demo''))))) =
     snd (fst (validate demo_bundle (SkillValidator_init ''demo'')))
     @ snd (fst (validate demo_bundle (SkillValidator_init ''demo'')))"
proof -
  let ?self = "SkillValidator_init ''demo''"
  have h1: "validate demo_bundle ?self = (fst (validate demo_bundle ?self), snd (validate demo_bundle ?self))"
    by simp
  have h2: "validate demo_bundle (snd (validate demo_bundle ?self)) =
              (fst (validate demo_bundle (snd (validate demo_bundle ?self))),
               snd (validate demo_bundle (snd (validate demo_bundle ?self))))"
    by simp
  have e: "issues ?self = []" by code_simp
  show ?thesis
    using issues_accumulate [OF h1 h2] e by simp
qed

text \<open>
  C2, as the code has it: when the guarded block of a rule group raises, the group adds one
  issue that names it, after the issues it had added before: an ERROR for the manifest,
  the file-structure and the script group, a WARNING for the content-quality and the
  secret-scanning group. The groups that follow run all the same: the returned list is
  the contribution of the five groups, one after the other. (The script group tests
  \<open>scripts_dir.exists()\<close> before its \<open>try\<close>; the statement is about runs where that
  test raises nothing.)
\<close>

theorem rule_group_failure_isolated:
  assumes "fs_exists w (skill_path self) = Inr True"
    and "fs_is_dir w (skill_path self) = Inr True"
    and "fs_exists w (skill_md_path self) = Inr True"
    and "snd (python_scripts_run w self) = None"
  shows "snd (fst (validate w self)) =
           issues self @ skill_md_issues w self @ file_structure_issues w self
           @ fst (python_scripts_run w self) @ content_quality_issues w self @ secrets_issues w self
       \<and> (\<forall>e. fs_read_text w (skill_md_path self) = Inl e \<longrightarrow>
              skill_md_issues w self =
                [issue ERROR (''Error reading SKILL.md: '' @ str_exn e) ''SKILL.md'' None
                   ''Ensure file is readable and properly encoded (UTF-8)''])
       \<and> (\<forall>content new e.
              fs_read_text w (skill_md_path self) = Inr content \<and> startswith content ''---\<newline>''
              \<and> skill_md_checks w content = (new, Some e) \<longrightarrow>
              (\<exists>i. skill_md_issues w self = new @ [i] \<and> severity i = ERROR
                   \<and> (message i = ''Error reading SKILL.md: '' @ str_exn e
                        \<or> message i = ''YAML frontmatter parsing error: '' @ str_exn e)))
       \<and> (\<forall>new e. file_structure_checks w self = (new, Some e) \<longrightarrow>
              file_structure_issues w self =
                new @ [issue ERROR (''Error validating file structure: '' @ str_exn e) [] None
                         ''Ensure directory permissions allow reading''])
       \<and> (\<forall>new e. fs_exists w (child (skill_path self) ''scripts'') = Inr True
              \<and> python_scripts_checks w self = (new, Some e) \<longrightarrow>
              fst (python_scripts_run w self) =
                new @ [issue ERROR (''Error validating Python scripts: '' @ str_exn e) [] None
                         ''Check scripts/ directory permissions''])
       \<and> (\<forall>e. collect_files w (skill_path self) [''*.md'', ''*.txt'', ''*.py''] = Inl e \<longrightarrow>
              content_quality_issues w self =
                [issue WARNING (''Error checking content quality: '' @ str_exn e) [] None
                   ''Manual review recommended''])
       \<and> (\<forall>e. collect_files w (skill_path self)
                   [''*.md'', ''*.txt'', ''*.py'', ''*.yaml'', ''*.yml'', ''*.json''] = Inl e \<longrightarrow>
              secrets_issues w self =
                [issue WARNING (''Error checking for secrets: '' @ str_exn e) [] None
                   ''Manual security review recommended''])"
proof -
  have all: "snd (fst (validate w self)) =
           issues self @ skill_md_issues w self @ file_structure_issues w self
           @ fst (python_scripts_run w self) @ content_quality_issues w self @ secrets_issues w self"
    using assms(4) by (simp add: validate_groups [OF assms(1,2,3)])
  have g1a: "skill_md_issues w self =
                [issue ERROR (''Error reading SKILL.md: '' @ str_exn e) ''SKILL.md'' None
                   ''Ensure file is readable and properly encoded (UTF-8)'']"
    if "fs_read_text w (skill_md_path self) = Inl e" for e
    using that by (simp add: skill_md_issues_def reading_error_def)
  have g1b: "\<exists>i. skill_md_issues w self = new @ [i] \<and> severity i = ERROR
                   \<and> (message i = ''Error reading SKILL.md: '' @ str_exn e
                        \<or> message i = ''YAML frontmatter parsing error: '' @ str_exn e)"
    if "fs_read_text w (skill_md_path self) = Inr content \<and> startswith content ''---\<newline>''
        \<and> skill_md_checks w content = (new, Some e)" for content new e
    using that by (cases e) (simp_all add: skill_md_issues_def reading_error_def issue_def)
  have g2: "file_structure_issues w self =
                new @ [issue ERROR (''Error validating file structure: '' @ str_exn e) [] None
                         ''Ensure directory permissions allow reading'']"
    if "file_structure_checks w self = (new, Some e)" for new e
    using that by (simp add: file_structure_issues_def guarded_def)
  have g3: "fst (python_scripts_run w self) =
                new @ [issue ERROR (''Error validating Python scripts: '' @ str_exn e) [] None
                         ''Check scripts/ directory permissions'']"
    if "fs_exists w (child (skill_path self) ''scripts'') = Inr True
          \<and> python_scripts_checks w self = (new, Some e)" for new e
    using that by (simp add: python_scripts_run_def guarded_def)
  have g4: "content_quality_issues w self =
                [issue WARNING (''Error checking content quality: '' @ str_exn e) [] None
                   ''Manual review recommended'']"
    if "collect_files w (skill_path self) [''*.md'', ''*.txt'', ''*.py''] = Inl e" for e
    using that by (simp only: content_quality_issues_def on_value_def guarded_def sum.case snd_conv fst_conv option.case append_Nil)
  have g5: "secrets_issues w self =
                [issue WARNING (''Error checking for secrets: '' @ str_exn e) [] None
                   ''Manual security review recommended'']"
    if "collect_files w (skill_path self)
                   [''*.md'', ''*.txt'', ''*.py'', ''*.yaml'', ''*.yml'', ''*.json''] = Inl e" for e
    using that by (simp only: secrets_issues_def on_value_def guarded_def sum.case snd_conv fst_conv option.case append_Nil)
  show ?thesis
    using all g1a g1b g2 g3 g4 g5 by blast
qed

text \<open>
  C2 as stated fails: in this bundle the content-quality scan and the secret scan both
  fail, each failure becomes a WARNING, and the bundle is valid with no ERROR at all.
\<close>

theorem scan_failure_not_error:
  "collect_files scan_failure_bundle (Path [] [''demo'']) [''*.md'', ''*.txt'', ''*.py''] = Inl (OtherError ''boom'')
   \<and> validate_path scan_failure_bundle ''demo'' =
       (True,
        [issue WARNING ''SKILL.md body is very short (8 words)'' ''SKILL.md'' None
           ''Add more detail about how to use the skill (aim for 200-5000 words)'',
         issue WARNING ''Error checking content quality: boom'' [] None ''Manual review recommended'',
         issue WARNING ''Error checking for secrets: boom'' [] None ''Manual security review recommended''])"
proof -
  let ?w = scan_failure_bundle and ?self = "SkillValidator_init ''demo''"
  have c: "collect_files ?w (Path [] [''demo'']) [''*.md'', ''*.txt'', ''*.py''] = Inl (OtherError ''boom'')"
    by code_simp
  have h1: "fs_exists ?w (skill_path ?self) = Inr True" by code_simp
  have h2: "fs_is_dir ?w (skill_path ?self) = Inr True" by code_simp
  have h3: "fs_exists ?w (skill_md_path ?self) = Inr True" by code_simp
  have h4: "issues ?self = []" by code_simp
  have g1: "skill_md_issues ?w ?self =
              [issue WARNING ''SKILL.md body is very short (8 words)'' ''SKILL.md'' None
                 ''Add more detail about how to use the skill (aim for 200-5000 words)'']" by code_simp
  have g2: "file_structure_issues ?w ?self = []" by code_simp
  have g3: "python_scripts_run ?w ?self = ([], None)" by code_simp
  have g4: "content_quality_issues ?w ?self =
              [issue WARNING ''Error checking content quality: boom'' [] None ''Manual review recommended'']"
    by code_simp
  have g5: "secrets_issues ?w ?self =
              [issue WARNING ''Error checking for secrets: boom'' [] None ''Manual security review recommended'']"
    by code_simp
  have "fst (validate ?w ?self) =
       (True,
        [issue WARNING ''SKILL.md body is very short (8 words)'' ''SKILL.md'' None
           ''Add more detail about how to use the skill (aim for 200-5000 words)'',
         issue WARNING ''Error checking content quality: boom'' [] None ''Manual review recommended'',
         issue WARNING ''Error checking for secrets: boom'' [] None ''Manual security review recommended''])"
    using validate_from_groups [OF h1 h2 h3 h4 g1 g2 g3 g4 g5] by (simp add: issue_def)
  with c show ?thesis
    by (simp only: validate_path_def simp_thms)
qed

theorem rule_group_failure_isolated_witness:
  "file_structure_issues listing_failure_bundle (SkillValidator_init ''demo'') =
     [issue ERROR ''Error validating file structure: denied'' [] None
        ''Ensure directory permissions allow reading'']
   \<and> content_quality_issues scan_failure_bundle (SkillValidator_init ''demo'') =
     [issue WARNING ''Error checking content quality: boom'' [] None ''Manual review recommended'']
   \<and> secrets_issues scan_failure_bundle (SkillValidator_init ''demo'') =
     [issue WARNING ''Error checking for secrets: boom'' [] None ''Manual security review recommended'']
   \<and> snd (fst (validate listing_failure_bundle (SkillValidator_init ''demo''))) =
       skill_md_issues listing_failure_bundle (SkillValidator_init ''demo'')
       @ [issue ERROR ''Error validating file structure: denied'' [] None
            ''Ensure directory permissions allow reading'']
       @ fst (python_scripts_run listing_failure_bundle (SkillValidator_init ''demo''))
       @ content_quality_issues listing_failure_bundle (SkillValidator_init ''demo'')
       @ secrets_issues listing_failure_bundle (SkillValidator_init ''demo'')"
proof -
  let ?w = scan_failure_bundle and ?v = listing_failure_bundle and ?self = "SkillValidator_init ''demo''"
  have h1: "fs_exists ?w (skill_path ?self) = Inr True" by code_simp
  have h2: "fs_is_dir ?w (skill_path ?self) = Inr True" by code_simp
  have h3: "fs_exists ?w (skill_md_path ?self) = Inr True" by code_simp
  have h4: "snd (python_scripts_run ?w ?self) = None" by code_simp
  have k1: "fs_exists ?v (skill_path ?self) = Inr True" by code_simp
  have k2: "fs_is_dir ?v (skill_path ?self) = Inr True" by code_simp
  have k3: "fs_exists ?v (skill_md_path ?self) = Inr True" by code_simp
  have k4: "snd (python_scripts_run ?v ?self) = None" by code_simp
  have e: "issues ?self = []" by code_simp
  have f2: "file_structure_checks ?v ?self = ([], Some (OtherError ''denied''))" by code_simp
  have f4: "collect_files ?w (skill_path ?self) [''*.md'', ''*.txt'', ''*.py''] = Inl (OtherError ''boom'')"
    by code_simp
  have f5: "collect_files ?w (skill_path ?self)
              [''*.md'', ''*.txt'', ''*.py'', ''*.yaml'', ''*.yml'', ''*.json''] = Inl (OtherError ''boom'')"
    by code_simp
  have a: "file_structure_issues ?v ?self =
     [issue ERROR ''Error validating file structure: denied'' [] None
        ''Ensure directory permissions allow reading'']"
    using rule_group_failure_isolated [OF k1 k2 k3 k4] f2 by simp
  have b: "content_quality_issues ?w ?self =
     [issue WARNING ''Error checking content quality: boom'' [] None ''Manual review recommended'']"
    using rule_group_failure_isolated [OF h1 h2 h3 h4] f4 by simp
  have c: "secrets_issues ?w ?self =
     [issue WARNING ''Error checking for secrets: boom'' [] None ''Manual security review recommended'']"
    using rule_group_failure_isolated [OF h1 h2 h3 h4] f5 by simp
  have d: "snd (fst (validate ?v ?self)) =
       skill_md_issues ?v ?self @ file_structure_issues ?v ?self
       @ fst (python_scripts_run ?v ?self) @ content_quality_issues ?v ?self @ secrets_issues ?v ?self"
    using rule_group_failure_isolated [OF k1 k2 k3 k4] e by simp
  show ?thesis
    using a b c d by simp
qed




end
